theory Spec2Isabelle
  imports Complex_Main
begin

section \<open>Anomaly detection over financial IT logs: the classification pipeline\<close>

text \<open>
  The repository holds two scripts with the same pipeline:
  \<^verbatim>\<open>detecao_anomalia_logs_financeiro.py\<close> (simulated logs, contamination fixed to 0.1) and
  \<^verbatim>\<open>detecao_anomalia_logs_financeiro_ler_arquivo.py\<close> (real logs, contamination read from a
  JSON configuration). Both work on a pandas DataFrame that is extended column by column:
  \<^verbatim>\<open>extrai_features\<close> adds \<^verbatim>\<open>possivel_ataque\<close> and \<^verbatim>\<open>hora\<close>, the isolation forest adds
  \<^verbatim>\<open>anomaly_score\<close> and \<^verbatim>\<open>anomaly\<close>, \<^verbatim>\<open>classifica_eventos\<close> gives \<^verbatim>\<open>classificacao\<close>, and
  \<^verbatim>\<open>gerar_alertas\<close> prints one line per critical event.
\<close>

subsection \<open>Values, rows and frames\<close>

text \<open>
  A timestamp as \<^verbatim>\<open>pd.to_datetime\<close> parses it from \<^verbatim>\<open>%Y-%m-%d %H:%M:%S\<close>.
\<close>

record datetime =
  year :: nat
  month :: nat
  day :: nat
  hour :: nat
  minute :: nat
  second :: nat

text \<open>
  The values a cell of the frame holds: a string, an integer, a float (taken as the real
  number it denotes), a timestamp, or a missing value (\<^verbatim>\<open>None\<close>/\<^verbatim>\<open>NaN\<close>). Strings are lists of
  characters with code points 0 to 255, which covers the Portuguese messages of the logs.
\<close>

datatype cell = Str string | Num int | Flt real | Time datetime | Null

text \<open>
  The exceptions of the pipeline: a missing column or key, an attribute that the value does not
  have (\<^verbatim>\<open>.lower()\<close> on a non-string, \<^verbatim>\<open>.dt\<close> on a non-datetime column, \<^verbatim>\<open>.get\<close> on a non-dict),
  a column assignment of the wrong length, whatever the isolation forest raises (by name),
  and the exceptions of reading the configuration file: \<^verbatim>\<open>open\<close> failing, bytes that are
  not UTF-8, and text that is not JSON.
\<close>

datatype error =
    KeyError string
  | AttributeError
  | ValueError
  | ModelError string
  | OSError
  | UnicodeDecodeError
  | JSONDecodeError

text \<open>A row handed to \<^verbatim>\<open>classifica_eventos\<close> by \<^verbatim>\<open>df.apply(..., axis=1)\<close>: column name to cell.\<close>

type_synonym row = "string \<Rightarrow> cell option"

definition row_getitem :: "row \<Rightarrow> string \<Rightarrow> error + cell" where
  "row_getitem r k = (case r k of None \<Rightarrow> Inl (KeyError k) | Some v \<Rightarrow> Inr v)"

text \<open>Python's \<^verbatim>\<open>==\<close> of a cell against an integer literal and against a string literal.\<close>

fun py_eq_int :: "cell \<Rightarrow> int \<Rightarrow> bool" where
  "py_eq_int (Num n) k = (n = k)"
| "py_eq_int (Flt x) k = (x = of_int k)"
| "py_eq_int (Str s) k = False"
| "py_eq_int (Time t) k = False"
| "py_eq_int Null k = False"

fun py_eq_str :: "cell \<Rightarrow> string \<Rightarrow> bool" where
  "py_eq_str (Str s) t = (s = t)"
| "py_eq_str (Num n) t = False"
| "py_eq_str (Flt x) t = False"
| "py_eq_str (Time d) t = False"
| "py_eq_str Null t = False"

definition cmp_int :: "error + cell \<Rightarrow> int \<Rightarrow> error + bool" where
  "cmp_int v k = (case v of Inl e \<Rightarrow> Inl e | Inr c \<Rightarrow> Inr (py_eq_int c k))"

text \<open>
  \<^verbatim>\<open>a and b\<close>: the right operand is evaluated, and can raise, only when the left one is true.
\<close>

definition py_and :: "error + bool \<Rightarrow> error + bool \<Rightarrow> error + bool" where
  "py_and a b = (case a of Inl e \<Rightarrow> Inl e | Inr x \<Rightarrow> (if x then b else Inr False))"


subsection \<open>Exceptions and loops that stop at the first exception\<close>

definition bindE :: "error + 'a \<Rightarrow> ('a \<Rightarrow> error + 'b) \<Rightarrow> error + 'b" where
  "bindE m f = (case m of Inl e \<Rightarrow> Inl e | Inr x \<Rightarrow> f x)"

text \<open>
  Applying a function to every element in order (\<^verbatim>\<open>Series.apply\<close>, \<^verbatim>\<open>df.apply(..., axis=1)\<close>,
  a \<^verbatim>\<open>for\<close> loop over \<^verbatim>\<open>iterrows()\<close>): the first exception ends the whole call.
\<close>

fun traverse :: "('a \<Rightarrow> error + 'b) \<Rightarrow> 'a list \<Rightarrow> error + 'b list" where
  "traverse f [] = Inr []"
| "traverse f (x # xs) =
     (case f x of
        Inl e \<Rightarrow> Inl e
      | Inr y \<Rightarrow> (case traverse f xs of Inl e \<Rightarrow> Inl e | Inr ys \<Rightarrow> Inr (y # ys)))"

subsection \<open>The DataFrame\<close>

text \<open>
  A frame has a number of rows (its index) and named columns. In pandas every column has as
  many entries as the index (\<open>wf_frame\<close>); a column assignment of another length raises
  \<^verbatim>\<open>ValueError\<close>. The functions of the scripts update the caller's frame in place and return
  it; here each takes the frame and returns its new state.
\<close>

record dataframe =
  nrows :: nat
  cols :: "string \<Rightarrow> cell list option"

definition wf_frame :: "dataframe \<Rightarrow> bool" where
  "wf_frame df = (\<forall>c v. cols df c = Some v \<longrightarrow> length v = nrows df)"

text \<open>\<^verbatim>\<open>df[c]\<close>\<close>

definition getitem :: "dataframe \<Rightarrow> string \<Rightarrow> error + cell list" where
  "getitem df c = (case cols df c of None \<Rightarrow> Inl (KeyError c) | Some v \<Rightarrow> Inr v)"

text \<open>\<^verbatim>\<open>df[[c1, c2, ...]]\<close>: a new frame with the listed columns only.\<close>

definition getitems :: "dataframe \<Rightarrow> string list \<Rightarrow> error + dataframe" where
  "getitems df cs =
     (case filter (\<lambda>c. cols df c = None) cs of
        [] \<Rightarrow> Inr \<lparr>nrows = nrows df, cols = (\<lambda>c. if c \<in> set cs then cols df c else None)\<rparr>
      | c # _ \<Rightarrow> Inl (KeyError c))"

text \<open>\<^verbatim>\<open>df[c] = values\<close>\<close>

definition setitem :: "dataframe \<Rightarrow> string \<Rightarrow> cell list \<Rightarrow> error + dataframe" where
  "setitem df c v =
     (if length v = nrows df then Inr (df\<lparr>cols := (cols df)(c \<mapsto> v)\<rparr>) else Inl ValueError)"

text \<open>The row at position \<open>i\<close>, and \<^verbatim>\<open>df.iterrows()\<close>: the rows in index order.\<close>

definition frame_row :: "dataframe \<Rightarrow> nat \<Rightarrow> row" where
  "frame_row df i =
     (\<lambda>c. case cols df c of
            None \<Rightarrow> None
          | Some v \<Rightarrow> if i < length v then Some (v ! i) else None)"

definition iterrows :: "dataframe \<Rightarrow> row list" where
  "iterrows df = map (frame_row df) [0..<nrows df]"

text \<open>\<^verbatim>\<open>df[mask]\<close> with a boolean mask: the rows where the mask is true, in their order.\<close>

definition boolean_index :: "dataframe \<Rightarrow> bool list \<Rightarrow> dataframe" where
  "boolean_index df msk =
     \<lparr>nrows = length (filter id msk),
      cols = (\<lambda>c. case cols df c of
                    None \<Rightarrow> None
                  | Some v \<Rightarrow> Some (map fst (filter snd (zip v msk))))\<rparr>"

subsection \<open>Strings\<close>

text \<open>
  \<^verbatim>\<open>str.lower()\<close> on code points 0 to 255: the letters A to Z and the accented capitals
  0xC0 to 0xDE (without the multiplication sign 0xD7) move up by 32, everything else stays.
\<close>

definition lower_char :: "char \<Rightarrow> char" where
  "lower_char c =
     (let n = (of_char c :: nat)
      in if (65 \<le> n \<and> n \<le> 90) \<or> (192 \<le> n \<and> n \<le> 222 \<and> n \<noteq> 215)
         then char_of (n + 32) else c)"

definition lower :: "string \<Rightarrow> string" where
  "lower s = map lower_char s"

text \<open>\<^verbatim>\<open>sub in s\<close> for strings: \<open>sub\<close> occurs in \<open>s\<close> as a contiguous piece.\<close>

fun starts_with :: "string \<Rightarrow> string \<Rightarrow> bool" where
  "starts_with [] s = True"
| "starts_with (p # ps) [] = False"
| "starts_with (p # ps) (c # cs) = (p = c \<and> starts_with ps cs)"

fun str_contains :: "string \<Rightarrow> string \<Rightarrow> bool" where
  "str_contains sub [] = (sub = [])"
| "str_contains sub (c # cs) = (starts_with sub (c # cs) \<or> str_contains sub cs)"

text \<open>
  The reading of "contains the case-insensitive substring \<open>kw\<close>" that the properties below
  compare the code with: some contiguous piece of the message has the length of \<open>kw\<close> and
  agrees with it letter by letter, where an ASCII capital agrees with its small letter.
\<close>

definition same_letter :: "char \<Rightarrow> char \<Rightarrow> bool" where
  "same_letter c d =
     (c = d
      \<or> (65 \<le> (of_char c :: nat) \<and> (of_char c :: nat) \<le> 90 \<and> (of_char d :: nat) = of_char c + 32)
      \<or> (65 \<le> (of_char d :: nat) \<and> (of_char d :: nat) \<le> 90 \<and> (of_char c :: nat) = of_char d + 32))"

definition contains_ci :: "string \<Rightarrow> string \<Rightarrow> bool" where
  "contains_ci kw m = (\<exists>pre w post. m = pre @ w @ post \<and> list_all2 same_letter w kw)"

subsection \<open>Feature extraction\<close>

text \<open>
  \<^verbatim>\<open>
  def extrai_features(df):
      df['possivel_ataque'] = df['mensagem'].apply(lambda x: 1 if "ataque" in x.lower() else 0)
      df['hora'] = df['timestamp'].dt.hour
      return df
  \<close>
  The lambda calls \<^verbatim>\<open>.lower()\<close>, which only a string has. The \<^verbatim>\<open>.dt\<close> accessor needs a column of
  timestamps, which is what \<^verbatim>\<open>pd.to_datetime\<close> with an explicit format leaves in the frame.
  (For a missing timestamp in a datetime column pandas gives a missing hour and does not
  raise; the events of this model carry a timestamp, and a frame with a missing one is
  outside it: the model raises there, as for any other value that is not a timestamp.)
\<close>

definition possivel_ataque_of :: "cell \<Rightarrow> error + cell" where
  "possivel_ataque_of x =
     (case x of
        Str s \<Rightarrow> Inr (Num (if str_contains ''ataque'' (lower s) then 1 else 0))
      | _ \<Rightarrow> Inl AttributeError)"

definition hour_of :: "cell \<Rightarrow> error + cell" where
  "hour_of x = (case x of Time t \<Rightarrow> Inr (Num (int (hour t))) | _ \<Rightarrow> Inl AttributeError)"

definition dt_hour :: "cell list \<Rightarrow> error + cell list" where
  "dt_hour col = traverse hour_of col"

definition extrai_features :: "dataframe \<Rightarrow> error + dataframe" where
  "extrai_features df =
     bindE (getitem df ''mensagem'') (\<lambda>mensagem.
     bindE (traverse possivel_ataque_of mensagem) (\<lambda>flags.
     bindE (setitem df ''possivel_ataque'' flags) (\<lambda>df1.
     bindE (getitem df1 ''timestamp'') (\<lambda>timestamp.
     bindE (dt_hour timestamp) (\<lambda>horas.
     setitem df1 ''hora'' horas)))))"

text \<open>
  The same function with its effect on the caller's frame written out. The two assignments
  act on the frame that was passed in, one after the other, and the function returns that
  same frame; an exception leaves the frame as the assignments made so far have left it. The
  result is the state of the caller's frame after the call and the exception raised, if any.
\<close>

definition extrai_features_no_lugar :: "dataframe \<Rightarrow> dataframe \<times> error option" where
  "extrai_features_no_lugar df =
     (case getitem df ''mensagem'' of
        Inl e \<Rightarrow> (df, Some e)
      | Inr mensagem \<Rightarrow>
     (case traverse possivel_ataque_of mensagem of
        Inl e \<Rightarrow> (df, Some e)
      | Inr flags \<Rightarrow>
     (case setitem df ''possivel_ataque'' flags of
        Inl e \<Rightarrow> (df, Some e)
      | Inr df1 \<Rightarrow>
     (case getitem df1 ''timestamp'' of
        Inl e \<Rightarrow> (df1, Some e)
      | Inr timestamp \<Rightarrow>
     (case dt_hour timestamp of
        Inl e \<Rightarrow> (df1, Some e)
      | Inr horas \<Rightarrow>
     (case setitem df1 ''hora'' horas of
        Inl e \<Rightarrow> (df1, Some e)
      | Inr df2 \<Rightarrow> (df2, None)))))))"

subsection \<open>The configuration\<close>

text \<open>
  The values \<^verbatim>\<open>json.load\<close> produces. The JSON parser itself is a parameter: it maps the text of
  the file to a value, or to the exception it raises (\<^verbatim>\<open>JSONDecodeError\<close> for text that is
  not JSON). The file system maps a path to nothing when \<^verbatim>\<open>os.path.exists\<close> is false, and
  otherwise to what opening and reading the file as UTF-8 text gives: \<^verbatim>\<open>open\<close> raises, or the
  bytes are not UTF-8 and reading raises, or there is a text.
\<close>

datatype arquivo = Nao_abre | Nao_utf8 | Texto string

datatype pyval =
    PNone
  | PBool bool
  | PInt int
  | PFloat real
  | PStr string
  | PList "pyval list"
  | PDict "(string \<times> pyval) list"

text \<open>\<^verbatim>\<open>config.get(key, default)\<close>: only a dict has \<^verbatim>\<open>get\<close>.\<close>

definition dict_get :: "pyval \<Rightarrow> string \<Rightarrow> pyval \<Rightarrow> error + pyval" where
  "dict_get d k dflt =
     (case d of
        PDict kvs \<Rightarrow> Inr (case map_of kvs k of None \<Rightarrow> dflt | Some v \<Rightarrow> v)
      | _ \<Rightarrow> Inl AttributeError)"

text \<open>
  \<^verbatim>\<open>
  def ler_config_contexto(config_path="config_contexto.json"):
      if os.path.exists(config_path):
          with open(config_path, "r", encoding="utf-8") as f:
              try:
                  config = json.load(f)
                  return config
              except json.JSONDecodeError:
                  return {}
      else:
          return {}
  \<close>
\<close>

definition ler_config_contexto ::
  "(string \<Rightarrow> error + pyval) \<Rightarrow> (string \<Rightarrow> arquivo option) \<Rightarrow> string \<Rightarrow> error + pyval" where
  "ler_config_contexto json_load fs config_path =
     (case fs config_path of
        None \<Rightarrow> Inr (PDict [])
      | Some Nao_abre \<Rightarrow> Inl OSError
      | Some Nao_utf8 \<Rightarrow> Inl UnicodeDecodeError
      | Some (Texto content) \<Rightarrow>
          (case json_load content of
             Inr config \<Rightarrow> Inr config
           | Inl e \<Rightarrow> if e = JSONDecodeError then Inr (PDict []) else Inl e))"

subsection \<open>Anomaly detection\<close>

text \<open>
  The isolation forest is scikit-learn's and is a parameter of the model:
  \<open>forest n_estimators contamination random_state X\<close> stands for
  \<^verbatim>\<open>IsolationForest(n_estimators=..., contamination=..., random_state=...).fit(X)\<close> and gives
  the fitted model, or the exception the library raises. A fitted model answers
  \<^verbatim>\<open>decision_function(X)\<close> and \<^verbatim>\<open>predict(X)\<close> with one value per row, or with an exception.
\<close>

record fitted =
  decision_function :: "dataframe \<Rightarrow> error + cell list"
  predict :: "dataframe \<Rightarrow> error + cell list"

type_synonym isolation_forest = "nat \<Rightarrow> pyval \<Rightarrow> nat \<Rightarrow> dataframe \<Rightarrow> error + fitted"

text \<open>
  \<^verbatim>\<open>
  def detectar_anomalias(df, config):
      features = df[['hora', 'possivel_ataque']]
      contamination = config.get("contamination", 0.1)
      modelo_if = IsolationForest(n_estimators=100, contamination=contamination, random_state=42)
      modelo_if.fit(features)
      df['anomaly_score'] = modelo_if.decision_function(features)
      df['anomaly'] = modelo_if.predict(features)
      return df
  \<close>
\<close>

definition detectar_anomalias :: "isolation_forest \<Rightarrow> dataframe \<Rightarrow> pyval \<Rightarrow> error + dataframe" where
  "detectar_anomalias forest df config =
     bindE (getitems df [''hora'', ''possivel_ataque'']) (\<lambda>features.
     bindE (dict_get config ''contamination'' (PFloat (1 / 10))) (\<lambda>contamination.
     bindE (forest 100 contamination 42 features) (\<lambda>modelo_if.
     bindE (decision_function modelo_if features) (\<lambda>scores.
     bindE (setitem df ''anomaly_score'' scores) (\<lambda>df1.
     bindE (predict modelo_if features) (\<lambda>labels.
     setitem df1 ''anomaly'' labels))))))"

text \<open>
  The same step as the first script has it, inline and with the contamination fixed:
  \<^verbatim>\<open>
  features = df_logs[['hora', 'possivel_ataque']]
  modelo_if = IsolationForest(n_estimators=100, contamination=0.1, random_state=42)
  modelo_if.fit(features)
  df_logs['anomaly_score'] = modelo_if.decision_function(features)
  df_logs['anomaly'] = modelo_if.predict(features)
  \<close>
\<close>

definition detectar_anomalias_fixo :: "isolation_forest \<Rightarrow> dataframe \<Rightarrow> error + dataframe" where
  "detectar_anomalias_fixo forest df =
     bindE (getitems df [''hora'', ''possivel_ataque'']) (\<lambda>features.
     bindE (forest 100 (PFloat (1 / 10)) 42 features) (\<lambda>modelo_if.
     bindE (decision_function modelo_if features) (\<lambda>scores.
     bindE (setitem df ''anomaly_score'' scores) (\<lambda>df1.
     bindE (predict modelo_if features) (\<lambda>labels.
     setitem df1 ''anomaly'' labels)))))"


subsection \<open>The severity classifier\<close>

text \<open>
  The three labels. The first is the word \<^verbatim>\<open>Critico\<close> written with an acute accent on its
  first \<^verbatim>\<open>i\<close> (code point 0xED); the listings below write it \<^verbatim>\<open>Cr[i']tico\<close>.
\<close>

definition Critico :: string where
  "Critico = ''Cr'' @ [CHR 0xED] @ ''tico''"

definition Suspeito :: string where
  "Suspeito = ''Suspeito''"

definition Normal :: string where
  "Normal = ''Normal''"

text \<open>
  \<^verbatim>\<open>
  def classifica_eventos(row):
      if row['anomaly'] == -1 and row['possivel_ataque'] == 1:
          return "Cr[i']tico"
      elif row['anomaly'] == 1 and row['possivel_ataque'] == 1:
          return "Suspeito"
      else:
          return "Normal"
  \<close>
\<close>

definition classifica_eventos :: "row \<Rightarrow> error + string" where
  "classifica_eventos r =
     (case py_and (cmp_int (row_getitem r ''anomaly'') (- 1))
                  (cmp_int (row_getitem r ''possivel_ataque'') 1) of
        Inl e \<Rightarrow> Inl e
      | Inr c1 \<Rightarrow>
          if c1 then Inr Critico
          else (case py_and (cmp_int (row_getitem r ''anomaly'') 1)
                            (cmp_int (row_getitem r ''possivel_ataque'') 1) of
                  Inl e \<Rightarrow> Inl e
                | Inr c2 \<Rightarrow> if c2 then Inr Suspeito else Inr Normal))"


text \<open>
  \<^verbatim>\<open>df.apply(classifica_eventos, axis=1)\<close>: one label per row, in index order. (For a frame
  without rows pandas hands back an empty frame instead; the model gives the empty list of
  labels. The properties below that go through this step speak about a row of the frame.)
\<close>

definition df_apply :: "(row \<Rightarrow> error + string) \<Rightarrow> dataframe \<Rightarrow> error + cell list" where
  "df_apply f df = traverse (\<lambda>r. bindE (f r) (\<lambda>s. Inr (Str s))) (iterrows df)"

subsection \<open>Alerts\<close>

text \<open>
  \<^verbatim>\<open>
  def gerar_alertas(df):
      eventos_criticos = df[df['classificacao'] == "Cr[i']tico"]
      for idx, evento in eventos_criticos.iterrows():
          alerta = (f"ALERTA CR[I']TICO: {evento['timestamp']} | IP: {evento['ip']} | "
                    f"N[i']vel: {evento['nivel']} | Mensagem: {evento['mensagem']}")
          print(alerta)
  \<close>
  The result of the model is the list of lines printed.

  Inside an f-string a string stands as it is, and a timestamp is written as
  \<^verbatim>\<open>YYYY-MM-DD HH:MM:SS\<close> with leading zeros (the fields of a timestamp are in range: a year
  below 10000, a month up to 12, and so on). How the other values are rendered (numbers,
  missing values), which the event fields never hold, is the parameter \<open>fmt\<close>.
\<close>

definition digito :: "nat \<Rightarrow> char" where
  "digito n = char_of (48 + n mod 10)"

definition dois_digitos :: "nat \<Rightarrow> string" where
  "dois_digitos n = [digito (n div 10), digito n]"

definition quatro_digitos :: "nat \<Rightarrow> string" where
  "quatro_digitos n = dois_digitos (n div 100) @ dois_digitos (n mod 100)"

definition str_datetime :: "datetime \<Rightarrow> string" where
  "str_datetime t =
     quatro_digitos (year t) @ ''-'' @ dois_digitos (month t) @ ''-'' @ dois_digitos (day t)
       @ '' '' @ dois_digitos (hour t) @ '':'' @ dois_digitos (minute t)
       @ '':'' @ dois_digitos (second t)"

text \<open>The ranges of the fields of a timestamp.\<close>

definition datetime_valido :: "datetime \<Rightarrow> bool" where
  "datetime_valido t =
     (year t < 10000 \<and> 1 \<le> month t \<and> month t \<le> 12 \<and> 1 \<le> day t \<and> day t \<le> 31
      \<and> hour t < 24 \<and> minute t < 60 \<and> second t < 60)"

definition fstr :: "(cell \<Rightarrow> string) \<Rightarrow> cell \<Rightarrow> string" where
  "fstr fmt c = (case c of Str s \<Rightarrow> s | Time t \<Rightarrow> str_datetime t | _ \<Rightarrow> fmt c)"

definition alerta :: "(cell \<Rightarrow> string) \<Rightarrow> cell \<Rightarrow> cell \<Rightarrow> cell \<Rightarrow> cell \<Rightarrow> string" where
  "alerta fmt ts ip nv ms =
     ''ALERTA CR'' @ [CHR 0xCD] @ ''TICO: '' @ fstr fmt ts @ '' | IP: '' @ fstr fmt ip
       @ '' | N'' @ [CHR 0xED] @ ''vel: '' @ fstr fmt nv @ '' | Mensagem: '' @ fstr fmt ms"

definition alerta_evento :: "(cell \<Rightarrow> string) \<Rightarrow> row \<Rightarrow> error + string" where
  "alerta_evento fmt evento =
     bindE (row_getitem evento ''timestamp'') (\<lambda>ts.
     bindE (row_getitem evento ''ip'') (\<lambda>ip.
     bindE (row_getitem evento ''nivel'') (\<lambda>nv.
     bindE (row_getitem evento ''mensagem'') (\<lambda>ms.
     Inr (alerta fmt ts ip nv ms)))))"

definition gerar_alertas :: "(cell \<Rightarrow> string) \<Rightarrow> dataframe \<Rightarrow> error + string list" where
  "gerar_alertas fmt df =
     bindE (getitem df ''classificacao'') (\<lambda>classificacao.
     traverse (alerta_evento fmt)
       (iterrows (boolean_index df (map (\<lambda>c. py_eq_str c Critico) classificacao))))"

subsection \<open>The pipeline\<close>

text \<open>
  The main block of the second script, after the ingestion of the log file:
  \<^verbatim>\<open>
  df_logs = extrai_features(df_logs)
  df_logs = detectar_anomalias(df_logs, config)
  df_logs['classificacao'] = df_logs.apply(classifica_eventos, axis=1)
  gerar_alertas(df_logs)
  \<close>
  The result is the classified frame and the alert lines printed.
\<close>

definition pipeline ::
  "isolation_forest \<Rightarrow> (cell \<Rightarrow> string) \<Rightarrow> pyval \<Rightarrow> dataframe \<Rightarrow> error + dataframe \<times> string list" where
  "pipeline forest fmt config df =
     bindE (extrai_features df) (\<lambda>df1.
     bindE (detectar_anomalias forest df1 config) (\<lambda>df2.
     bindE (df_apply classifica_eventos df2) (\<lambda>classificacao.
     bindE (setitem df2 ''classificacao'' classificacao) (\<lambda>df3.
     bindE (gerar_alertas fmt df3) (\<lambda>alertas.
     Inr (df3, alertas))))))"

text \<open>The first script runs the same steps at top level, with the fixed contamination.\<close>

definition pipeline_fixo ::
  "isolation_forest \<Rightarrow> (cell \<Rightarrow> string) \<Rightarrow> dataframe \<Rightarrow> error + dataframe \<times> string list" where
  "pipeline_fixo forest fmt df =
     bindE (extrai_features df) (\<lambda>df1.
     bindE (detectar_anomalias_fixo forest df1) (\<lambda>df2.
     bindE (df_apply classifica_eventos df2) (\<lambda>classificacao.
     bindE (setitem df2 ''classificacao'' classificacao) (\<lambda>df3.
     bindE (gerar_alertas fmt df3) (\<lambda>alertas.
     Inr (df3, alertas))))))"

text \<open>
  The second script from its start: the configuration is read first, outside the
  \<^verbatim>\<open>try\<close> block (which catches only the \<^verbatim>\<open>FileNotFoundError\<close> of a missing log file), so
  an exception of reading it ends the run.
  \<^verbatim>\<open>
  config = ler_config_contexto()
  ...
  df_logs = ingestao_logs(log_file_path)
  \<close>
  The frame \<open>df\<close> is what the ingestion gives.
\<close>

definition principal ::
  "(string \<Rightarrow> error + pyval) \<Rightarrow> (string \<Rightarrow> arquivo option) \<Rightarrow> isolation_forest
     \<Rightarrow> (cell \<Rightarrow> string) \<Rightarrow> dataframe \<Rightarrow> error + dataframe \<times> string list" where
  "principal json_load fs forest fmt df =
     bindE (ler_config_contexto json_load fs ''config_contexto.json'') (\<lambda>config.
     pipeline forest fmt config df)"


subsection \<open>Example frames\<close>

text \<open>
  Two ingested log lines, as \<^verbatim>\<open>ingestao_logs\<close> structures them: an error line of the simulator
  (whose message carries the word the extractor looks for, in capitals here) and a plain one.
\<close>

definition eventos_exemplo :: dataframe where
  "eventos_exemplo =
     \<lparr>nrows = 2,
      cols = [''timestamp'' \<mapsto> [Time \<lparr>year = 2024, month = 5, day = 17, hour = 3, minute = 15, second = 42\<rparr>,
                                 Time \<lparr>year = 2024, month = 5, day = 17, hour = 9, minute = 0, second = 7\<rparr>],
              ''ip'' \<mapsto> [Str ''10.0.0.7'', Str ''192.168.1.20''],
              ''nivel'' \<mapsto> [Str ''ERROR'', Str ''INFO''],
              ''mensagem'' \<mapsto> [Str ''Acesso negado - Possivel ATAQUE detectado'',
                                Str ''Acesso permitido'']]\<rparr>"

text \<open>A log line in English.\<close>

definition eventos_attack :: dataframe where
  "eventos_attack =
     \<lparr>nrows = 1,
      cols = [''timestamp'' \<mapsto> [Time \<lparr>year = 2024, month = 5, day = 17, hour = 3, minute = 15, second = 42\<rparr>],
              ''ip'' \<mapsto> [Str ''10.0.0.7''],
              ''nivel'' \<mapsto> [Str ''ERROR''],
              ''mensagem'' \<mapsto> [Str ''Brute force attack'']]\<rparr>"

text \<open>
  A stand-in for the library, used to run the pipeline on the example: its fitted model
  isolates the event of three o'clock and answers with one score and one label per row.
\<close>

definition floresta_exemplo :: isolation_forest where
  "floresta_exemplo n_estimators contamination random_state X =
     Inr \<lparr>decision_function =
            (\<lambda>Y. case cols Y ''hora'' of
                    None \<Rightarrow> Inl (ModelError ''ValueError'')
                  | Some hs \<Rightarrow> Inr (map (\<lambda>h. if h = Num 3 then Flt (- 1 / 10) else Flt (1 / 5)) hs)),
          predict =
            (\<lambda>Y. case cols Y ''hora'' of
                    None \<Rightarrow> Inl (ModelError ''ValueError'')
                  | Some hs \<Rightarrow> Inr (map (\<lambda>h. if h = Num 3 then Num (- 1) else Num 1) hs))\<rparr>"

text \<open>The example frame after the whole pipeline with that model.\<close>

definition eventos_classificados :: dataframe where
  "eventos_classificados =
     eventos_exemplo\<lparr>cols := (cols eventos_exemplo)
       (''possivel_ataque'' \<mapsto> [Num 1, Num 0],
        ''hora'' \<mapsto> [Num 3, Num 9],
        ''anomaly_score'' \<mapsto> [Flt (- 1 / 10), Flt (1 / 5)],
        ''anomaly'' \<mapsto> [Num (- 1), Num 1],
        ''classificacao'' \<mapsto> [Str Critico, Str Normal])\<rparr>"

text \<open>A rendering for the values that are neither strings nor timestamps.\<close>

definition fmt_exemplo :: "cell \<Rightarrow> string" where
  "fmt_exemplo c = ''<valor>''"

text \<open>The line printed for the first event of the example.\<close>

definition alerta_exemplo :: string where
  "alerta_exemplo =
     ''ALERTA CR'' @ [CHR 0xCD] @ ''TICO: 2024-05-17 03:15:42 | IP: 10.0.0.7 | N'' @ [CHR 0xED]
       @ ''vel: ERROR | Mensagem: Acesso negado - Possivel ATAQUE detectado''"

text \<open>The example frame with a column \<^verbatim>\<open>hora\<close> already in it.\<close>

definition eventos_com_hora :: dataframe where
  "eventos_com_hora = eventos_exemplo\<lparr>cols := (cols eventos_exemplo)(''hora'' \<mapsto> [Num 0, Num 0])\<rparr>"

text \<open>
  A parser that reads the text \<^verbatim>\<open>[]\<close> as the empty list, as \<^verbatim>\<open>json.load\<close> does, and that is
  all the example needs of it.
\<close>

definition json_load_exemplo :: "string \<Rightarrow> error + pyval" where
  "json_load_exemplo s = (if s = ''[]'' then Inr (PList []) else Inl JSONDecodeError)"


subsection \<open>Properties of the classifier\<close>

lemma labels_distinct:
  "Critico \<noteq> Suspeito" "Critico \<noteq> Normal" "Suspeito \<noteq> Normal"
  by (simp_all add: Critico_def Suspeito_def Normal_def)

lemma classifica_eventos_present:
  "r ''anomaly'' = Some a \<Longrightarrow> r ''possivel_ataque'' = Some s \<Longrightarrow>
   classifica_eventos r =
     Inr (if py_eq_int a (- 1) \<and> py_eq_int s 1 then Critico
          else if py_eq_int a 1 \<and> py_eq_int s 1 then Suspeito else Normal)"
  by (simp add: classifica_eventos_def py_and_def cmp_int_def row_getitem_def)

lemma classifica_eventos_range:
  "classifica_eventos r = Inr v \<Longrightarrow> v = Normal \<or> v = Suspeito \<or> v = Critico"
  by (auto simp: classifica_eventos_def py_and_def cmp_int_def row_getitem_def
           split: option.splits if_splits)

lemma classifica_eventos_cong:
  "r' ''anomaly'' = r ''anomaly'' \<Longrightarrow> r' ''possivel_ataque'' = r ''possivel_ataque'' \<Longrightarrow>
   classifica_eventos r' = classifica_eventos r"
proof -
  assume a: "r' ''anomaly'' = r ''anomaly''" and s: "r' ''possivel_ataque'' = r ''possivel_ataque''"
  have "row_getitem r' ''anomaly'' = row_getitem r ''anomaly''"
    by (simp only: row_getitem_def a)
  moreover have "row_getitem r' ''possivel_ataque'' = row_getitem r ''possivel_ataque''"
    by (simp only: row_getitem_def s)
  ultimately show ?thesis
    by (simp only: classifica_eventos_def)
qed

text \<open>
  C1. For a row whose \<^verbatim>\<open>anomaly\<close> is -1 or +1 and whose \<^verbatim>\<open>possivel_ataque\<close> is 0 or 1, the
  classifier returns the label of the decision table: (-1,1) is critical, (+1,1) is suspicious,
  (-1,0) and (+1,0) are normal. Any other row with the same two entries gets the same label
  (nothing else is consulted), and whatever the classifier returns is one of the three labels.
\<close>

theorem classifica_eventos_table:
  assumes "r ''anomaly'' = Some (Num a)" and "r ''possivel_ataque'' = Some (Num s)"
    and "a = - 1 \<or> a = 1" and "s = 0 \<or> s = 1"
  shows "(a = - 1 \<and> s = 1 \<longrightarrow> classifica_eventos r = Inr Critico)
       \<and> (a = 1 \<and> s = 1 \<longrightarrow> classifica_eventos r = Inr Suspeito)
       \<and> (a = - 1 \<and> s = 0 \<longrightarrow> classifica_eventos r = Inr Normal)
       \<and> (a = 1 \<and> s = 0 \<longrightarrow> classifica_eventos r = Inr Normal)
       \<and> (\<forall>r'. r' ''anomaly'' = r ''anomaly'' \<and> r' ''possivel_ataque'' = r ''possivel_ataque''
              \<longrightarrow> classifica_eventos r' = classifica_eventos r)
       \<and> (\<forall>v. classifica_eventos r = Inr v \<longrightarrow> v = Normal \<or> v = Suspeito \<or> v = Critico)"
proof -
  have tab: "classifica_eventos r =
      Inr (if a = - 1 \<and> s = 1 then Critico else if a = 1 \<and> s = 1 then Suspeito else Normal)"
    using classifica_eventos_present [OF assms(1) assms(2)] by simp
  have same: "\<forall>r'. r' ''anomaly'' = r ''anomaly'' \<and> r' ''possivel_ataque'' = r ''possivel_ataque''
              \<longrightarrow> classifica_eventos r' = classifica_eventos r"
    using classifica_eventos_cong by blast
  have rng: "\<forall>v. classifica_eventos r = Inr v \<longrightarrow> v = Normal \<or> v = Suspeito \<or> v = Critico"
    using classifica_eventos_range by blast
  have t1: "a = - 1 \<and> s = 1 \<longrightarrow> classifica_eventos r = Inr Critico"
    using tab by simp
  have t2: "a = 1 \<and> s = 1 \<longrightarrow> classifica_eventos r = Inr Suspeito"
    using tab by simp
  have t3: "a = - 1 \<and> s = 0 \<longrightarrow> classifica_eventos r = Inr Normal"
    using tab by simp
  have t4: "a = 1 \<and> s = 0 \<longrightarrow> classifica_eventos r = Inr Normal"
    using tab by simp
  show ?thesis
    by (intro conjI) (rule t1, rule t2, rule t3, rule t4, rule same, rule rng)
qed

theorem classifica_eventos_table_witness:
  "classifica_eventos [''anomaly'' \<mapsto> Num (- 1), ''possivel_ataque'' \<mapsto> Num 1] = Inr Critico
   \<and> classifica_eventos [''anomaly'' \<mapsto> Num 1, ''possivel_ataque'' \<mapsto> Num 1] = Inr Suspeito"
proof -
  let ?c = "[''anomaly'' \<mapsto> Num (- 1), ''possivel_ataque'' \<mapsto> Num 1]"
  let ?s = "[''anomaly'' \<mapsto> Num 1, ''possivel_ataque'' \<mapsto> Num 1]"
  have c1: "?c ''anomaly'' = Some (Num (- 1))" and c2: "?c ''possivel_ataque'' = Some (Num 1)"
    by simp_all
  have s1: "?s ''anomaly'' = Some (Num 1)" and s2: "?s ''possivel_ataque'' = Some (Num 1)"
    by simp_all
  have m: "(- 1 :: int) = - 1 \<or> (- 1 :: int) = 1" and p: "(1 :: int) = - 1 \<or> (1 :: int) = 1"
    and o: "(1 :: int) = 0 \<or> (1 :: int) = 1"
    by simp_all
  have "classifica_eventos ?c = Inr Critico"
    using classifica_eventos_table [OF c1 c2 m o] by blast
  moreover have "classifica_eventos ?s = Inr Suspeito"
    using classifica_eventos_table [OF s1 s2 p o] by blast
  ultimately show ?thesis by (rule conjI)
qed

text \<open>
  C10. The classifier is total on rows that carry both entries, with \<^verbatim>\<open>Normal\<close> as the
  default: whenever the pair is not (-1,1) and not (+1,1), so for every \<^verbatim>\<open>anomaly\<close> value with
  \<^verbatim>\<open>possivel_ataque\<close> different from 1 and for every \<^verbatim>\<open>anomaly\<close> value other than -1 and +1 with
  \<^verbatim>\<open>possivel_ataque\<close> equal to 1, a result is returned and it is \<^verbatim>\<open>Normal\<close>. The values
  are arbitrary cells (integers, floats, strings, timestamps, missing), compared as Python's
  \<^verbatim>\<open>==\<close> compares them with the literals.
\<close>

theorem classifica_eventos_default_normal:
  assumes "r ''anomaly'' = Some a" and "r ''possivel_ataque'' = Some s"
    and "py_eq_int s 1 \<longrightarrow> \<not> py_eq_int a (- 1) \<and> \<not> py_eq_int a 1"
  shows "classifica_eventos r = Inr Normal"
  using classifica_eventos_present [OF assms(1) assms(2)] assms(3) by auto

theorem classifica_eventos_default_normal_witness:
  "classifica_eventos [''anomaly'' \<mapsto> Num 7, ''possivel_ataque'' \<mapsto> Num 1] = Inr Normal
   \<and> classifica_eventos [''anomaly'' \<mapsto> Num (- 1), ''possivel_ataque'' \<mapsto> Num 2] = Inr Normal
   \<and> classifica_eventos [''anomaly'' \<mapsto> Str ''x'', ''possivel_ataque'' \<mapsto> Null] = Inr Normal"
  using classifica_eventos_default_normal
          [of "[''anomaly'' \<mapsto> Num 7, ''possivel_ataque'' \<mapsto> Num 1]" "Num 7" "Num 1"]
        classifica_eventos_default_normal
          [of "[''anomaly'' \<mapsto> Num (- 1), ''possivel_ataque'' \<mapsto> Num 2]" "Num (- 1)" "Num 2"]
        classifica_eventos_default_normal
          [of "[''anomaly'' \<mapsto> Str ''x'', ''possivel_ataque'' \<mapsto> Null]" "Str ''x''" Null]
  by simp


subsection \<open>Exceptions, loops and frames: basic facts\<close>

lemma bindE_Inr_iff: "bindE m f = Inr y \<longleftrightarrow> (\<exists>x. m = Inr x \<and> f x = Inr y)"
  by (cases m) (simp_all add: bindE_def)

lemma bindE_Inr: "bindE (Inr x) f = f x"
  by (simp add: bindE_def)

lemma traverse_Inr_iff: "traverse f xs = Inr ys \<longleftrightarrow> list_all2 (\<lambda>x y. f x = Inr y) xs ys"
proof (induction xs arbitrary: ys)
  case Nil
  then show ?case by auto
next
  case (Cons x xs)
  show ?case
  proof (cases "f x")
    case (Inl e)
    then show ?thesis by (auto simp: list_all2_Cons1)
  next
    case (Inr y)
    then show ?thesis
      using Cons.IH by (cases "traverse f xs") (auto simp: list_all2_Cons1)
  qed
qed

lemma traverse_length: "traverse f xs = Inr ys \<Longrightarrow> length ys = length xs"
  by (simp add: traverse_Inr_iff list_all2_lengthD)

lemma traverse_nth: "traverse f xs = Inr ys \<Longrightarrow> i < length xs \<Longrightarrow> f (xs ! i) = Inr (ys ! i)"
  unfolding traverse_Inr_iff by (rule list_all2_nthD)

lemma traverse_map: "(\<And>x. x \<in> set xs \<Longrightarrow> f x = Inr (g x)) \<Longrightarrow> traverse f xs = Inr (map g xs)"
  by (induction xs) simp_all

lemma getitem_Inr_iff: "getitem df c = Inr v \<longleftrightarrow> cols df c = Some v"
  by (simp add: getitem_def split: option.splits)

lemma setitem_Inr_iff:
  "setitem df c v = Inr df' \<longleftrightarrow> length v = nrows df \<and> df' = df\<lparr>cols := (cols df)(c \<mapsto> v)\<rparr>"
  by (auto simp: setitem_def)

lemma wf_frame_setitem: "wf_frame df \<Longrightarrow> setitem df c v = Inr df' \<Longrightarrow> wf_frame df'"
  by (auto simp: setitem_Inr_iff wf_frame_def)

lemma frame_row_Some:
  "wf_frame df \<Longrightarrow> cols df c = Some v \<Longrightarrow> i < nrows df \<Longrightarrow> frame_row df i c = Some (v ! i)"
  by (simp add: frame_row_def wf_frame_def)

lemma frame_row_SomeD:
  "frame_row df i c = Some x \<Longrightarrow> \<exists>v. cols df c = Some v \<and> i < length v \<and> x = v ! i"
  by (auto simp: frame_row_def split: option.splits if_splits)

subsection \<open>Strings: what the substring test decides\<close>

lemma starts_with_iff: "starts_with p s \<longleftrightarrow> (\<exists>post. s = p @ post)"
  by (induction p s rule: starts_with.induct) auto

lemma str_contains_iff: "str_contains sub s \<longleftrightarrow> (\<exists>pre post. s = pre @ sub @ post)"
proof (induction s)
  case Nil
  then show ?case by auto
next
  case (Cons c cs)
  show ?case
  proof
    assume "str_contains sub (c # cs)"
    then consider "starts_with sub (c # cs)" | "str_contains sub cs" by auto
    then show "\<exists>pre post. c # cs = pre @ sub @ post"
    proof cases
      case 1
      then obtain post where "c # cs = sub @ post" by (auto simp: starts_with_iff)
      then have "c # cs = [] @ sub @ post" by simp
      then show ?thesis by blast
    next
      case 2
      then obtain pre post where "cs = pre @ sub @ post" using Cons.IH by auto
      then have "c # cs = (c # pre) @ sub @ post" by simp
      then show ?thesis by blast
    qed
  next
    assume "\<exists>pre post. c # cs = pre @ sub @ post"
    then obtain pre post where e: "c # cs = pre @ sub @ post" by auto
    show "str_contains sub (c # cs)"
    proof (cases pre)
      case Nil
      then have "starts_with sub (c # cs)" using e by (auto simp: starts_with_iff)
      then show ?thesis by simp
    next
      case (Cons p ps)
      then have "cs = ps @ sub @ post" using e by simp
      then have "str_contains sub cs" using Cons.IH by blast
      then show ?thesis by simp
    qed
  qed
qed

lemma str_contains_lower:
  "str_contains sub (lower s) \<longleftrightarrow> (\<exists>pre w post. s = pre @ w @ post \<and> lower w = sub)"
proof
  assume "str_contains sub (lower s)"
  then obtain p q where "map lower_char s = p @ sub @ q"
    unfolding str_contains_iff lower_def by blast
  then obtain pre rest where s: "s = pre @ rest" and r: "sub @ q = map lower_char rest"
    using map_eq_append_conv [of lower_char s p "sub @ q"] by blast
  from r obtain w post where "rest = w @ post" and "sub = map lower_char w"
    using append_eq_map_conv [of sub q lower_char rest] by blast
  with s show "\<exists>pre w post. s = pre @ w @ post \<and> lower w = sub"
    unfolding lower_def by blast
next
  assume "\<exists>pre w post. s = pre @ w @ post \<and> lower w = sub"
  then obtain pre w post where "s = pre @ w @ post" and "lower w = sub" by blast
  then have "lower s = lower pre @ sub @ lower post"
    by (auto simp: lower_def)
  then show "str_contains sub (lower s)"
    unfolding str_contains_iff by blast
qed

lemma of_char_lower_char:
  "(of_char (lower_char c) :: nat) =
     (if (65 \<le> (of_char c :: nat) \<and> (of_char c :: nat) \<le> 90)
         \<or> (192 \<le> (of_char c :: nat) \<and> (of_char c :: nat) \<le> 222 \<and> (of_char c :: nat) \<noteq> 215)
      then of_char c + 32 else of_char c)"
  by (simp add: lower_char_def Let_def)

lemma lower_char_eq_iff:
  assumes "97 \<le> (of_char k :: nat)" and "(of_char k :: nat) \<le> 122"
  shows "lower_char c = k \<longleftrightarrow> (of_char c :: nat) = of_char k \<or> (of_char c :: nat) + 32 = of_char k"
proof -
  have "lower_char c = k \<longleftrightarrow> (of_char (lower_char c) :: nat) = of_char k"
    by simp
  also have "\<dots> \<longleftrightarrow> (of_char c :: nat) = of_char k \<or> (of_char c :: nat) + 32 = of_char k"
    using assms by (auto simp: of_char_lower_char split: if_splits)
  finally show ?thesis .
qed

lemma same_letter_small:
  assumes "97 \<le> (of_char k :: nat)" and "(of_char k :: nat) \<le> 122"
  shows "same_letter c k \<longleftrightarrow> (of_char c :: nat) = of_char k \<or> (of_char c :: nat) + 32 = of_char k"
proof -
  have "c = k \<longleftrightarrow> (of_char c :: nat) = of_char k"
    by simp
  then show ?thesis
    using assms unfolding same_letter_def by auto
qed

lemma lower_char_same_letter:
  "97 \<le> (of_char k :: nat) \<Longrightarrow> (of_char k :: nat) \<le> 122 \<Longrightarrow> lower_char c = k \<longleftrightarrow> same_letter c k"
  by (simp only: lower_char_eq_iff same_letter_small)

lemma lower_eq_ataque: "lower w = ''ataque'' \<longleftrightarrow> list_all2 same_letter w ''ataque''"
proof -
  have "lower w = ''ataque'' \<longleftrightarrow> list_all2 (\<lambda>c k. lower_char c = k) w ''ataque''"
    unfolding lower_def by (simp add: list_all2_Cons2 map_eq_Cons_conv)
  also have "\<dots> \<longleftrightarrow> list_all2 same_letter w ''ataque''"
    by (simp add: list_all2_Cons2 lower_char_same_letter)
  finally show ?thesis .
qed

lemma str_contains_ataque: "str_contains ''ataque'' (lower m) \<longleftrightarrow> contains_ci ''ataque'' m"
  unfolding str_contains_lower contains_ci_def by (simp only: lower_eq_ataque)


subsection \<open>Feature extraction\<close>

lemma extrai_features_InrD:
  assumes "extrai_features df = Inr df'"
  shows "\<exists>ms flags ts horas.
           cols df ''mensagem'' = Some ms \<and> traverse possivel_ataque_of ms = Inr flags
         \<and> cols df ''timestamp'' = Some ts \<and> traverse hour_of ts = Inr horas
         \<and> length flags = nrows df \<and> length horas = nrows df
         \<and> df' = df\<lparr>cols := (cols df)(''possivel_ataque'' \<mapsto> flags, ''hora'' \<mapsto> horas)\<rparr>"
proof -
  from assms obtain ms flags df1 ts horas where
    ms: "getitem df ''mensagem'' = Inr ms" and
    flags: "traverse possivel_ataque_of ms = Inr flags" and
    df1: "setitem df ''possivel_ataque'' flags = Inr df1" and
    ts: "getitem df1 ''timestamp'' = Inr ts" and
    horas: "dt_hour ts = Inr horas" and
    df': "setitem df1 ''hora'' horas = Inr df'"
    unfolding extrai_features_def bindE_Inr_iff by blast
  from df1 have l1: "length flags = nrows df"
    and e1: "df1 = df\<lparr>cols := (cols df)(''possivel_ataque'' \<mapsto> flags)\<rparr>"
    by (simp_all add: setitem_Inr_iff)
  from df' e1 have l2: "length horas = nrows df"
    and e2: "df' = df\<lparr>cols := (cols df)(''possivel_ataque'' \<mapsto> flags, ''hora'' \<mapsto> horas)\<rparr>"
    by (simp_all add: setitem_Inr_iff)
  from ts e1 have "cols df ''timestamp'' = Some ts"
    by (simp add: getitem_Inr_iff)
  with ms flags horas l1 l2 e2 show ?thesis
    by (simp add: getitem_Inr_iff dt_hour_def)
qed

lemma possivel_ataque_of_InrD:
  "possivel_ataque_of x = Inr y \<Longrightarrow>
   \<exists>m. x = Str m \<and> y = Num (if contains_ci ''ataque'' m then 1 else 0)"
  by (cases x) (auto simp: possivel_ataque_of_def str_contains_ataque)

lemma ataque_em_exemplo:
  "str_contains ''ataque'' (lower ''Acesso negado - Possivel ATAQUE detectado'')"
  "\<not> str_contains ''ataque'' (lower ''Acesso permitido'')"
  "\<not> str_contains ''ataque'' (lower ''Brute force attack'')"
  by code_simp+

lemma extrai_features_exemplo:
  "extrai_features eventos_exemplo =
     Inr (eventos_exemplo\<lparr>cols := (cols eventos_exemplo)
            (''possivel_ataque'' \<mapsto> [Num 1, Num 0], ''hora'' \<mapsto> [Num 3, Num 9])\<rparr>)"
  by (simp add: extrai_features_def eventos_exemplo_def getitem_def setitem_def bindE_def
        possivel_ataque_of_def dt_hour_def hour_of_def ataque_em_exemplo)

lemma extrai_features_attack:
  "extrai_features eventos_attack =
     Inr (eventos_attack\<lparr>cols := (cols eventos_attack)
            (''possivel_ataque'' \<mapsto> [Num 0], ''hora'' \<mapsto> [Num 3])\<rparr>)"
  by (simp add: extrai_features_def eventos_attack_def getitem_def setitem_def bindE_def
        possivel_ataque_of_def dt_hour_def hour_of_def ataque_em_exemplo)

text \<open>
  C3, as the claim states it, fails: a message with the English word is not flagged. For the
  one-line frame whose message is \<^verbatim>\<open>Brute force attack\<close> the extractor stores 0, although the
  message contains \<^verbatim>\<open>attack\<close>.
\<close>

theorem extrai_features_attack_not_flagged:
  "extrai_features eventos_attack =
     Inr (eventos_attack\<lparr>cols := (cols eventos_attack)
            (''possivel_ataque'' \<mapsto> [Num 0], ''hora'' \<mapsto> [Num 3])\<rparr>)
   \<and> frame_row eventos_attack 0 ''mensagem'' = Some (Str ''Brute force attack'')
   \<and> contains_ci ''attack'' ''Brute force attack''"
proof -
  have "''Brute force attack'' = ''Brute force '' @ ''attack'' @ []"
    by simp
  moreover have "list_all2 same_letter ''attack'' ''attack''"
    by (simp add: same_letter_def)
  ultimately have "contains_ci ''attack'' ''Brute force attack''"
    unfolding contains_ci_def by blast
  moreover have "frame_row eventos_attack 0 ''mensagem'' = Some (Str ''Brute force attack'')"
    by (simp add: frame_row_def eventos_attack_def)
  ultimately show ?thesis
    using extrai_features_attack by simp
qed

text \<open>
  C3, amended. When the extractor returns, the message of every event is a string and the
  flag stored for the event at the same position is 1 if the message contains the word
  \<^verbatim>\<open>ataque\<close> in any mix of capitals and small letters, and 0 otherwise. (The English
  \<^verbatim>\<open>attack\<close> is not looked for.)
\<close>

theorem extrai_features_possivel_ataque:
  assumes "extrai_features df = Inr df'" and "frame_row df i ''mensagem'' = Some x"
  shows "\<exists>m. x = Str m
           \<and> frame_row df' i ''possivel_ataque'' = Some (Num (if contains_ci ''ataque'' m then 1 else 0))"
proof -
  from extrai_features_InrD [OF assms(1)] obtain ms flags horas where
    ms: "cols df ''mensagem'' = Some ms" and
    flags: "traverse possivel_ataque_of ms = Inr flags" and
    df': "df' = df\<lparr>cols := (cols df)(''possivel_ataque'' \<mapsto> flags, ''hora'' \<mapsto> horas)\<rparr>"
    by blast
  from assms(2) ms have i: "i < length ms" and x: "x = ms ! i"
    by (auto dest: frame_row_SomeD)
  from flags i have "possivel_ataque_of (ms ! i) = Inr (flags ! i)"
    by (rule traverse_nth)
  then obtain m where m: "ms ! i = Str m"
    and f: "flags ! i = Num (if contains_ci ''ataque'' m then 1 else 0)"
    by (auto dest: possivel_ataque_of_InrD)
  from flags have "length flags = length ms"
    by (rule traverse_length)
  with i df' have "frame_row df' i ''possivel_ataque'' = Some (flags ! i)"
    by (simp add: frame_row_def)
  with m f x show ?thesis by simp
qed

theorem extrai_features_possivel_ataque_witness:
  "frame_row (eventos_exemplo\<lparr>cols := (cols eventos_exemplo)
      (''possivel_ataque'' \<mapsto> [Num 1, Num 0], ''hora'' \<mapsto> [Num 3, Num 9])\<rparr>) 0 ''possivel_ataque''
     = Some (Num (if contains_ci ''ataque'' ''Acesso negado - Possivel ATAQUE detectado'' then 1 else 0))"
proof -
  have "frame_row eventos_exemplo 0 ''mensagem'' = Some (Str ''Acesso negado - Possivel ATAQUE detectado'')"
    by (simp add: frame_row_def eventos_exemplo_def)
  from extrai_features_possivel_ataque [OF extrai_features_exemplo this]
  show ?thesis by simp
qed

lemma extrai_features_no_lugar_shape:
  assumes "extrai_features_no_lugar df = (df', r)"
  shows "df' = df
       \<or> (\<exists>flags. df' = df\<lparr>cols := (cols df)(''possivel_ataque'' \<mapsto> flags)\<rparr>)
       \<or> (\<exists>flags horas.
            df' = df\<lparr>cols := (cols df)(''possivel_ataque'' \<mapsto> flags, ''hora'' \<mapsto> horas)\<rparr>)"
  using assms
  by (fastforce simp: extrai_features_no_lugar_def setitem_def split: sum.splits if_splits)

lemma extrai_features_no_lugar_returns:
  assumes "extrai_features_no_lugar df = (df', None)"
  shows "extrai_features df = Inr df'"
    and "\<exists>flags horas.
           df' = df\<lparr>cols := (cols df)(''possivel_ataque'' \<mapsto> flags, ''hora'' \<mapsto> horas)\<rparr>"
  using assms
  by (fastforce simp: extrai_features_no_lugar_def extrai_features_def bindE_def setitem_def
           split: sum.splits if_splits)+

lemma extrai_features_no_lugar_raises:
  assumes "extrai_features_no_lugar df = (df', Some e)"
  shows "extrai_features df = Inl e"
  using assms
  by (auto simp: extrai_features_no_lugar_def extrai_features_def bindE_def setitem_def
           split: sum.splits if_splits)

lemma extrai_features_no_lugar_exemplo:
  "extrai_features_no_lugar eventos_exemplo =
     (eventos_exemplo\<lparr>cols := (cols eventos_exemplo)
        (''possivel_ataque'' \<mapsto> [Num 1, Num 0], ''hora'' \<mapsto> [Num 3, Num 9])\<rparr>, None)"
  by (simp add: extrai_features_no_lugar_def eventos_exemplo_def getitem_def setitem_def
        possivel_ataque_of_def dt_hour_def hour_of_def ataque_em_exemplo)

lemma extrai_features_no_lugar_com_hora:
  "extrai_features_no_lugar eventos_com_hora =
     (eventos_exemplo\<lparr>cols := (cols eventos_exemplo)
        (''possivel_ataque'' \<mapsto> [Num 1, Num 0], ''hora'' \<mapsto> [Num 3, Num 9])\<rparr>, None)"
  by (simp add: extrai_features_no_lugar_def eventos_com_hora_def eventos_exemplo_def getitem_def
        setitem_def possivel_ataque_of_def dt_hour_def hour_of_def ataque_em_exemplo fun_upd_twist)

text \<open>
  C9, as the claim states it, fails: the extractor does change the data of its caller. After
  the call on the example the caller's frame holds a column \<^verbatim>\<open>hora\<close> that it did not hold
  before, and on a frame that already has a column \<^verbatim>\<open>hora\<close> the entries of that column are
  replaced.
\<close>

theorem extrai_features_muda_o_frame:
  "cols eventos_exemplo ''hora'' = None
   \<and> cols (fst (extrai_features_no_lugar eventos_exemplo)) ''hora'' = Some [Num 3, Num 9]
   \<and> cols eventos_com_hora ''hora'' = Some [Num 0, Num 0]
   \<and> cols (fst (extrai_features_no_lugar eventos_com_hora)) ''hora'' = Some [Num 3, Num 9]"
proof -
  have a: "cols eventos_exemplo ''hora'' = None"
    by (simp add: eventos_exemplo_def)
  have b: "cols (fst (extrai_features_no_lugar eventos_exemplo)) ''hora'' = Some [Num 3, Num 9]"
    by (simp add: extrai_features_no_lugar_exemplo)
  have c: "cols eventos_com_hora ''hora'' = Some [Num 0, Num 0]"
    by (simp add: eventos_com_hora_def)
  have d: "cols (fst (extrai_features_no_lugar eventos_com_hora)) ''hora'' = Some [Num 3, Num 9]"
    by (simp add: extrai_features_no_lugar_com_hora)
  from a b c d show ?thesis by (intro conjI)
qed

text \<open>
  C9, amended. The extractor is a function of the frame it is given, but it is not free of
  side effects: it works on the caller's frame in place. What it changes there is at most
  the two columns \<^verbatim>\<open>possivel_ataque\<close> and \<^verbatim>\<open>hora\<close>, which it assigns (replacing columns of those
  names): after the call, whether it returned or raised, the number of rows is the same and
  every other column is exactly as it was, entry by entry. When it returns, the frame it
  returns is the caller's frame with those two columns assigned.
\<close>

theorem extrai_features_no_lugar_frame:
  assumes "extrai_features_no_lugar df = (df', r)"
  shows "nrows df' = nrows df
       \<and> (\<forall>c. c \<noteq> ''possivel_ataque'' \<and> c \<noteq> ''hora'' \<longrightarrow> cols df' c = cols df c)
       \<and> (\<forall>i c. c \<noteq> ''possivel_ataque'' \<and> c \<noteq> ''hora'' \<longrightarrow> frame_row df' i c = frame_row df i c)
       \<and> (r = None \<longrightarrow>
            extrai_features df = Inr df'
          \<and> (\<exists>flags horas.
                df' = df\<lparr>cols := (cols df)(''possivel_ataque'' \<mapsto> flags, ''hora'' \<mapsto> horas)\<rparr>))
       \<and> (\<forall>e. r = Some e \<longrightarrow> extrai_features df = Inl e)"
proof -
  from extrai_features_no_lugar_shape [OF assms]
  have n: "nrows df' = nrows df"
    and other: "\<forall>c. c \<noteq> ''possivel_ataque'' \<and> c \<noteq> ''hora'' \<longrightarrow> cols df' c = cols df c"
    by auto
  from other
  have rows: "\<forall>i c. c \<noteq> ''possivel_ataque'' \<and> c \<noteq> ''hora'' \<longrightarrow> frame_row df' i c = frame_row df i c"
    by (simp add: frame_row_def)
  have ret: "r = None \<longrightarrow>
            extrai_features df = Inr df'
          \<and> (\<exists>flags horas.
                df' = df\<lparr>cols := (cols df)(''possivel_ataque'' \<mapsto> flags, ''hora'' \<mapsto> horas)\<rparr>)"
    using assms extrai_features_no_lugar_returns by blast
  have rai: "\<forall>e. r = Some e \<longrightarrow> extrai_features df = Inl e"
    using assms extrai_features_no_lugar_raises by blast
  show ?thesis
    by (intro conjI) (rule n, rule other, rule rows, rule ret, rule rai)
qed

theorem extrai_features_no_lugar_frame_witness:
  "nrows (eventos_exemplo\<lparr>cols := (cols eventos_exemplo)
      (''possivel_ataque'' \<mapsto> [Num 1, Num 0], ''hora'' \<mapsto> [Num 3, Num 9])\<rparr>) = nrows eventos_exemplo
   \<and> cols (eventos_exemplo\<lparr>cols := (cols eventos_exemplo)
      (''possivel_ataque'' \<mapsto> [Num 1, Num 0], ''hora'' \<mapsto> [Num 3, Num 9])\<rparr>) ''mensagem''
       = cols eventos_exemplo ''mensagem''
   \<and> extrai_features eventos_exemplo
       = Inr (eventos_exemplo\<lparr>cols := (cols eventos_exemplo)
           (''possivel_ataque'' \<mapsto> [Num 1, Num 0], ''hora'' \<mapsto> [Num 3, Num 9])\<rparr>)"
proof -
  note t = extrai_features_no_lugar_frame [OF extrai_features_no_lugar_exemplo]
  have a: "nrows (eventos_exemplo\<lparr>cols := (cols eventos_exemplo)
      (''possivel_ataque'' \<mapsto> [Num 1, Num 0], ''hora'' \<mapsto> [Num 3, Num 9])\<rparr>) = nrows eventos_exemplo"
    using t by (rule conjunct1)
  have "\<forall>c. c \<noteq> ''possivel_ataque'' \<and> c \<noteq> ''hora'' \<longrightarrow>
          cols (eventos_exemplo\<lparr>cols := (cols eventos_exemplo)
            (''possivel_ataque'' \<mapsto> [Num 1, Num 0], ''hora'' \<mapsto> [Num 3, Num 9])\<rparr>) c
            = cols eventos_exemplo c"
    using t [THEN conjunct2] by (rule conjunct1)
  then have b: "cols (eventos_exemplo\<lparr>cols := (cols eventos_exemplo)
      (''possivel_ataque'' \<mapsto> [Num 1, Num 0], ''hora'' \<mapsto> [Num 3, Num 9])\<rparr>) ''mensagem''
       = cols eventos_exemplo ''mensagem''"
    by simp
  have "(None :: error option) = None \<longrightarrow>
          extrai_features eventos_exemplo
            = Inr (eventos_exemplo\<lparr>cols := (cols eventos_exemplo)
                (''possivel_ataque'' \<mapsto> [Num 1, Num 0], ''hora'' \<mapsto> [Num 3, Num 9])\<rparr>)
        \<and> (\<exists>flags horas.
              eventos_exemplo\<lparr>cols := (cols eventos_exemplo)
                (''possivel_ataque'' \<mapsto> [Num 1, Num 0], ''hora'' \<mapsto> [Num 3, Num 9])\<rparr>
              = eventos_exemplo\<lparr>cols := (cols eventos_exemplo)
                (''possivel_ataque'' \<mapsto> flags, ''hora'' \<mapsto> horas)\<rparr>)"
    using t [THEN conjunct2, THEN conjunct2, THEN conjunct2] by (rule conjunct1)
  then have c: "extrai_features eventos_exemplo
       = Inr (eventos_exemplo\<lparr>cols := (cols eventos_exemplo)
           (''possivel_ataque'' \<mapsto> [Num 1, Num 0], ''hora'' \<mapsto> [Num 3, Num 9])\<rparr>)"
    by blast
  from a b c show ?thesis by (intro conjI)
qed


subsection \<open>Alerts\<close>

lemma upt_Suc_shift: "[0..<Suc n] = 0 # map Suc [0..<n]"
  by (simp only: map_Suc_upt upt_conv_Cons [of 0 "Suc n"] zero_less_Suc)

lemma filter_zip_positions:
  "length v = length msk \<Longrightarrow>
   map fst (filter snd (zip v msk)) = map ((!) v) (filter ((!) msk) [0..<length msk])"
proof (induction v msk rule: list_induct2)
  case Nil
  then show ?case by simp
next
  case (Cons x v b msk)
  have "map ((!) (x # v)) (filter ((!) (b # msk)) [0..<Suc (length msk)])
          = (if b then [x] else []) @ map ((!) v) (filter ((!) msk) [0..<length msk])"
    by (simp add: upt_Suc_shift filter_map comp_def del: upt_Suc)
  with Cons.IH show ?case by simp
qed

lemma length_filter_positions:
  "length (filter ((!) msk) [0..<length msk]) = length (filter id msk)"
proof -
  have "map fst (filter snd (zip msk msk)) = map ((!) msk) (filter ((!) msk) [0..<length msk])"
    by (rule filter_zip_positions) simp
  moreover have "length (filter snd (zip msk msk)) = length (filter id msk)"
    by (induction msk) simp_all
  ultimately show ?thesis
    by (metis length_map)
qed

lemma filter_nth_positions:
  "map ((!) xs) (filter (\<lambda>i. P (xs ! i)) [0..<length xs]) = filter P xs"
proof (induction xs)
  case Nil
  then show ?case by simp
next
  case (Cons x xs)
  have "map ((!) (x # xs)) (filter (\<lambda>i. P ((x # xs) ! i)) [0..<Suc (length xs)])
          = (if P x then [x] else []) @ map ((!) xs) (filter (\<lambda>i. P (xs ! i)) [0..<length xs])"
    by (simp add: upt_Suc_shift filter_map comp_def del: upt_Suc)
  with Cons.IH show ?case by simp
qed

lemma traverse_map_map:
  "(\<And>x. x \<in> set xs \<Longrightarrow> f (h x) = Inr (g x)) \<Longrightarrow> traverse f (map h xs) = Inr (map g xs)"
  by (induction xs) simp_all

lemma frame_row_boolean_index:
  assumes "cols df c = Some v" and "length v = length msk"
    and "k < length (filter ((!) msk) [0..<length msk])"
  shows "frame_row (boolean_index df msk) k c = Some (v ! (filter ((!) msk) [0..<length msk] ! k))"
proof -
  have "map fst (filter snd (zip v msk)) = map ((!) v) (filter ((!) msk) [0..<length msk])"
    using assms(2) by (rule filter_zip_positions)
  with assms(1) assms(3) show ?thesis
    by (simp add: frame_row_def boolean_index_def)
qed

lemma gerar_alertas_positions:
  assumes wf: "wf_frame df"
    and cl: "cols df ''classificacao'' = Some cl"
    and ts: "cols df ''timestamp'' = Some ts" and ip: "cols df ''ip'' = Some ip"
    and nv: "cols df ''nivel'' = Some nv" and ms: "cols df ''mensagem'' = Some ms"
  shows "gerar_alertas fmt df =
           Inr (map (\<lambda>i. alerta fmt (ts ! i) (ip ! i) (nv ! i) (ms ! i))
                    (filter (\<lambda>i. py_eq_str (cl ! i) Critico) [0..<nrows df]))"
proof -
  define msk where "msk = map (\<lambda>c. py_eq_str c Critico) cl"
  define idx where "idx = filter ((!) msk) [0..<length msk]"
  define line where "line = (\<lambda>i. alerta fmt (ts ! i) (ip ! i) (nv ! i) (ms ! i))"
  have len: "length msk = nrows df" "length cl = nrows df" "length ts = nrows df"
    "length ip = nrows df" "length nv = nrows df" "length ms = nrows df"
    using wf cl ts ip nv ms by (simp_all add: wf_frame_def msk_def)
  have rows: "iterrows (boolean_index df msk) = map (frame_row (boolean_index df msk)) [0..<length idx]"
    by (simp add: iterrows_def boolean_index_def idx_def length_filter_positions)
  have each: "alerta_evento fmt (frame_row (boolean_index df msk) k) = Inr (line (idx ! k))"
    if "k < length idx" for k
  proof -
    from that have k: "k < length (filter ((!) msk) [0..<length msk])"
      by (simp add: idx_def)
    have "frame_row (boolean_index df msk) k ''timestamp'' = Some (ts ! (idx ! k))"
      "frame_row (boolean_index df msk) k ''ip'' = Some (ip ! (idx ! k))"
      "frame_row (boolean_index df msk) k ''nivel'' = Some (nv ! (idx ! k))"
      "frame_row (boolean_index df msk) k ''mensagem'' = Some (ms ! (idx ! k))"
      unfolding idx_def
      using frame_row_boolean_index [OF ts _ k] frame_row_boolean_index [OF ip _ k]
        frame_row_boolean_index [OF nv _ k] frame_row_boolean_index [OF ms _ k] len
      by simp_all
    then show ?thesis
      by (simp add: alerta_evento_def row_getitem_def bindE_def line_def)
  qed
  have t: "traverse (alerta_evento fmt) (map (frame_row (boolean_index df msk)) [0..<length idx])
          = Inr (map (\<lambda>k. line (idx ! k)) [0..<length idx])"
    by (rule traverse_map_map) (simp add: each)
  have "map (\<lambda>k. line (idx ! k)) [0..<length idx] = map line (map ((!) idx) [0..<length idx])"
    by (simp only: map_map comp_def)
  then have m: "map (\<lambda>k. line (idx ! k)) [0..<length idx] = map line idx"
    by (simp only: map_nth)
  have "\<And>i. i \<in> set [0..<nrows df] \<Longrightarrow> msk ! i = py_eq_str (cl ! i) Critico"
    by (simp add: msk_def len(2))
  then have "filter ((!) msk) [0..<nrows df] = filter (\<lambda>i. py_eq_str (cl ! i) Critico) [0..<nrows df]"
    by (rule filter_cong [OF refl])
  then have i: "idx = filter (\<lambda>i. py_eq_str (cl ! i) Critico) [0..<nrows df]"
    by (simp only: idx_def len(1))
  have "traverse (alerta_evento fmt) (iterrows (boolean_index df msk)) = Inr (map line idx)"
    by (simp only: rows t m)
  moreover have "gerar_alertas fmt df = traverse (alerta_evento fmt) (iterrows (boolean_index df msk))"
    using cl by (simp add: gerar_alertas_def getitem_def bindE_def msk_def)
  ultimately show ?thesis
    by (simp only: i line_def)
qed

lemma digito_eq_iff: "digito a = digito b \<longleftrightarrow> a mod 10 = b mod 10"
proof -
  have "(48 + a mod 10) mod 256 = 48 + a mod 10" and "(48 + b mod 10) mod 256 = 48 + b mod 10"
    by simp_all
  then show ?thesis
    unfolding digito_def char_of_quasi_inj by simp
qed

lemma dois_digitos_inj:
  assumes "a < 100" and "b < 100" and "dois_digitos a = dois_digitos b"
  shows "a = b"
proof -
  from assms(3) have "a div 10 mod 10 = b div 10 mod 10" and "a mod 10 = b mod 10"
    by (simp_all add: dois_digitos_def digito_eq_iff)
  moreover have "a div 10 < 10" and "b div 10 < 10"
    using assms(1) assms(2) by (simp_all add: div_less_iff_less_mult)
  ultimately have "a div 10 = b div 10" and "a mod 10 = b mod 10"
    by simp_all
  then show ?thesis
    by (metis div_mult_mod_eq)
qed

lemma quatro_digitos_inj:
  assumes "a < 10000" and "b < 10000" and "quatro_digitos a = quatro_digitos b"
  shows "a = b"
proof -
  from assms(3) have "dois_digitos (a div 100) = dois_digitos (b div 100)"
    and "dois_digitos (a mod 100) = dois_digitos (b mod 100)"
    by (simp_all add: quatro_digitos_def dois_digitos_def)
  moreover have "a div 100 < 100" and "b div 100 < 100" and "a mod 100 < 100" and "b mod 100 < 100"
    using assms(1) assms(2) by (simp_all add: div_less_iff_less_mult)
  ultimately have "a div 100 = b div 100" and "a mod 100 = b mod 100"
    by (auto intro: dois_digitos_inj)
  then show ?thesis
    by (metis div_mult_mod_eq)
qed

lemma str_datetime_inj:
  assumes "datetime_valido t" and "datetime_valido t'" and "str_datetime t = str_datetime t'"
  shows "t = t'"
proof -
  have len: "length (quatro_digitos a) = 4" "length (dois_digitos a) = 2" for a
    by (simp_all add: quatro_digitos_def dois_digitos_def)
  from assms(3) have q: "quatro_digitos (year t) = quatro_digitos (year t')"
    and d: "dois_digitos (month t) = dois_digitos (month t')"
      "dois_digitos (day t) = dois_digitos (day t')"
      "dois_digitos (hour t) = dois_digitos (hour t')"
      "dois_digitos (minute t) = dois_digitos (minute t')"
      "dois_digitos (second t) = dois_digitos (second t')"
    unfolding str_datetime_def by (simp_all add: len)
  from q assms(1) assms(2) have "year t = year t'"
    by (auto simp: datetime_valido_def intro: quatro_digitos_inj)
  moreover from d assms(1) assms(2) have "month t = month t'" "day t = day t'"
    "hour t = hour t'" "minute t = minute t'" "second t = second t'"
    by (auto simp: datetime_valido_def intro!: dois_digitos_inj)
  ultimately show ?thesis
    by simp
qed

lemma str_datetime_exemplo:
  "str_datetime \<lparr>year = 2024, month = 5, day = 17, hour = 3, minute = 15, second = 42\<rparr>
     = ''2024-05-17 03:15:42''"
  by code_simp

lemma alerta_evento_campos:
  "alerta fmt (Time t) (Str a) (Str l) (Str m) =
     ''ALERTA CR'' @ [CHR 0xCD] @ ''TICO: '' @ str_datetime t @ '' | IP: '' @ a
       @ '' | N'' @ [CHR 0xED] @ ''vel: '' @ l @ '' | Mensagem: '' @ m"
  by (simp add: alerta_def fstr_def)

text \<open>
  C5. For a frame that holds the classification and the four event columns, the alert
  emitter does not fail and prints exactly one line per row classified critical, none for
  any other row, in the order of the rows. The number of lines is the number of critical
  entries, so an empty frame or a frame without critical rows prints nothing and is not an
  error. Each line is the fixed text of the alert around the four fields of its own row; for
  an event, whose IP, level and message are strings and whose timestamp is a timestamp, the
  three strings stand in the line character by character, and the timestamp stands there
  as its date and time, a text from which the timestamp can be read back.
\<close>

theorem gerar_alertas_criticos:
  assumes "wf_frame df"
    and "cols df ''classificacao'' = Some cl"
    and "cols df ''timestamp'' = Some ts" and "cols df ''ip'' = Some ip"
    and "cols df ''nivel'' = Some nv" and "cols df ''mensagem'' = Some ms"
  shows "\<exists>alertas. gerar_alertas fmt df = Inr alertas
           \<and> alertas = map (\<lambda>i. ''ALERTA CR'' @ [CHR 0xCD] @ ''TICO: '' @ fstr fmt (ts ! i)
                                   @ '' | IP: '' @ fstr fmt (ip ! i)
                                   @ '' | N'' @ [CHR 0xED] @ ''vel: '' @ fstr fmt (nv ! i)
                                   @ '' | Mensagem: '' @ fstr fmt (ms ! i))
                           (filter (\<lambda>i. py_eq_str (cl ! i) Critico) [0..<nrows df])
           \<and> length alertas = length (filter (\<lambda>c. py_eq_str c Critico) cl)
           \<and> (nrows df = 0 \<longrightarrow> alertas = [])
           \<and> ((\<forall>c \<in> set cl. \<not> py_eq_str c Critico) \<longrightarrow> alertas = [])
           \<and> (\<forall>k t a l m.
                  k < length alertas
                \<and> ts ! (filter (\<lambda>i. py_eq_str (cl ! i) Critico) [0..<nrows df] ! k) = Time t
                \<and> ip ! (filter (\<lambda>i. py_eq_str (cl ! i) Critico) [0..<nrows df] ! k) = Str a
                \<and> nv ! (filter (\<lambda>i. py_eq_str (cl ! i) Critico) [0..<nrows df] ! k) = Str l
                \<and> ms ! (filter (\<lambda>i. py_eq_str (cl ! i) Critico) [0..<nrows df] ! k) = Str m
                \<longrightarrow> alertas ! k = ''ALERTA CR'' @ [CHR 0xCD] @ ''TICO: '' @ str_datetime t
                                    @ '' | IP: '' @ a @ '' | N'' @ [CHR 0xED] @ ''vel: '' @ l
                                    @ '' | Mensagem: '' @ m)
           \<and> (\<forall>t t'. datetime_valido t \<and> datetime_valido t' \<and> str_datetime t = str_datetime t'
                  \<longrightarrow> t = t')"
proof -
  let ?idx = "filter (\<lambda>i. py_eq_str (cl ! i) Critico) [0..<nrows df]"
  let ?line = "\<lambda>i. ''ALERTA CR'' @ [CHR 0xCD] @ ''TICO: '' @ fstr fmt (ts ! i)
                                   @ '' | IP: '' @ fstr fmt (ip ! i)
                                   @ '' | N'' @ [CHR 0xED] @ ''vel: '' @ fstr fmt (nv ! i)
                                   @ '' | Mensagem: '' @ fstr fmt (ms ! i)"
  let ?alertas = "map ?line ?idx"
  have n: "length cl = nrows df"
    using assms(1) assms(2) by (simp add: wf_frame_def)
  have "gerar_alertas fmt df
          = Inr (map (\<lambda>i. alerta fmt (ts ! i) (ip ! i) (nv ! i) (ms ! i)) ?idx)"
    using assms by (rule gerar_alertas_positions)
  then have run: "gerar_alertas fmt df = Inr ?alertas"
    by (simp only: alerta_def)
  have "map ((!) cl) ?idx = filter (\<lambda>c. py_eq_str c Critico) cl"
    using filter_nth_positions [of cl "\<lambda>c. py_eq_str c Critico"] by (simp only: n)
  then have "length (map ((!) cl) ?idx) = length (filter (\<lambda>c. py_eq_str c Critico) cl)"
    by (rule arg_cong)
  then have count: "length ?alertas = length (filter (\<lambda>c. py_eq_str c Critico) cl)"
    by (simp only: length_map)
  have empty: "nrows df = 0 \<longrightarrow> ?alertas = []"
    by simp
  have none: "(\<forall>c \<in> set cl. \<not> py_eq_str c Critico) \<longrightarrow> ?alertas = []"
  proof
    assume "\<forall>c \<in> set cl. \<not> py_eq_str c Critico"
    then have "filter (\<lambda>c. py_eq_str c Critico) cl = []"
      by (simp add: filter_empty_conv)
    with count have "length ?alertas = 0" by (simp only: list.size)
    then show "?alertas = []" by (simp only: length_0_conv)
  qed
  have campos: "\<forall>k t a l m.
                  k < length ?alertas
                \<and> ts ! (?idx ! k) = Time t \<and> ip ! (?idx ! k) = Str a
                \<and> nv ! (?idx ! k) = Str l \<and> ms ! (?idx ! k) = Str m
                \<longrightarrow> ?alertas ! k = ''ALERTA CR'' @ [CHR 0xCD] @ ''TICO: '' @ str_datetime t
                                    @ '' | IP: '' @ a @ '' | N'' @ [CHR 0xED] @ ''vel: '' @ l
                                    @ '' | Mensagem: '' @ m"
  proof (intro allI impI, elim conjE)
    fix k t a l m
    assume k: "k < length ?alertas"
      and f: "ts ! (?idx ! k) = Time t" "ip ! (?idx ! k) = Str a"
             "nv ! (?idx ! k) = Str l" "ms ! (?idx ! k) = Str m"
    from k have "?alertas ! k = ?line (?idx ! k)"
      by (simp only: length_map nth_map)
    also have "\<dots> = ''ALERTA CR'' @ [CHR 0xCD] @ ''TICO: '' @ str_datetime t
                                    @ '' | IP: '' @ a @ '' | N'' @ [CHR 0xED] @ ''vel: '' @ l
                                    @ '' | Mensagem: '' @ m"
      by (simp only: f fstr_def cell.case)
    finally show "?alertas ! k = ''ALERTA CR'' @ [CHR 0xCD] @ ''TICO: '' @ str_datetime t
                                    @ '' | IP: '' @ a @ '' | N'' @ [CHR 0xED] @ ''vel: '' @ l
                                    @ '' | Mensagem: '' @ m" .
  qed
  have inj: "\<forall>t t'. datetime_valido t \<and> datetime_valido t' \<and> str_datetime t = str_datetime t'
                  \<longrightarrow> t = t'"
    using str_datetime_inj by blast
  show ?thesis
    by (intro exI conjI) (rule run, rule refl, rule count, rule empty, rule none, rule campos, rule inj)
qed

lemma wf_frame_eventos_classificados: "wf_frame eventos_classificados"
  by (simp add: wf_frame_def eventos_classificados_def eventos_exemplo_def)

lemma colunas_eventos_classificados:
  "cols eventos_classificados ''classificacao'' = Some [Str Critico, Str Normal]"
  "cols eventos_classificados ''timestamp'' =
     Some [Time \<lparr>year = 2024, month = 5, day = 17, hour = 3, minute = 15, second = 42\<rparr>,
           Time \<lparr>year = 2024, month = 5, day = 17, hour = 9, minute = 0, second = 7\<rparr>]"
  "cols eventos_classificados ''ip'' = Some [Str ''10.0.0.7'', Str ''192.168.1.20'']"
  "cols eventos_classificados ''nivel'' = Some [Str ''ERROR'', Str ''INFO'']"
  "cols eventos_classificados ''mensagem'' =
     Some [Str ''Acesso negado - Possivel ATAQUE detectado'', Str ''Acesso permitido'']"
  by (simp_all add: eventos_classificados_def eventos_exemplo_def)

lemma criticos_eventos_classificados:
  "filter (\<lambda>i. py_eq_str ([Str Critico, Str Normal] ! i) Critico) [0..<nrows eventos_classificados] = [0]"
  using labels_distinct(2)
  by (simp add: eventos_classificados_def eventos_exemplo_def upt_rec [of 0] upt_rec [of 1])

lemma linha_exemplo:
  "''ALERTA CR'' @ [CHR 0xCD] @ ''TICO: ''
     @ str_datetime \<lparr>year = 2024, month = 5, day = 17, hour = 3, minute = 15, second = 42\<rparr>
     @ '' | IP: '' @ ''10.0.0.7'' @ '' | N'' @ [CHR 0xED] @ ''vel: '' @ ''ERROR''
     @ '' | Mensagem: '' @ ''Acesso negado - Possivel ATAQUE detectado'' = alerta_exemplo"
  by (simp add: str_datetime_exemplo alerta_exemplo_def)

theorem gerar_alertas_criticos_witness:
  "gerar_alertas fmt_exemplo eventos_classificados = Inr [alerta_exemplo]"
proof -
  from gerar_alertas_criticos
         [OF wf_frame_eventos_classificados colunas_eventos_classificados, of fmt_exemplo]
  have "gerar_alertas fmt_exemplo eventos_classificados =
          Inr [''ALERTA CR'' @ [CHR 0xCD] @ ''TICO: ''
     @ str_datetime \<lparr>year = 2024, month = 5, day = 17, hour = 3, minute = 15, second = 42\<rparr>
     @ '' | IP: '' @ ''10.0.0.7'' @ '' | N'' @ [CHR 0xED] @ ''vel: '' @ ''ERROR''
     @ '' | Mensagem: '' @ ''Acesso negado - Possivel ATAQUE detectado'']"
    by (auto simp add: criticos_eventos_classificados fstr_def)
  then show ?thesis
    by (simp only: linha_exemplo)
qed


subsection \<open>The configuration and the detection step\<close>

lemma getitems_features:
  "getitems df [''hora'', ''possivel_ataque''] = Inr features \<longleftrightarrow>
     cols df ''hora'' \<noteq> None \<and> cols df ''possivel_ataque'' \<noteq> None
   \<and> features = \<lparr>nrows = nrows df,
                   cols = (\<lambda>c. if c \<in> set [''hora'', ''possivel_ataque''] then cols df c else None)\<rparr>"
  by (auto simp: getitems_def)

lemma dict_get_empty: "dict_get (PDict []) k dflt = Inr dflt"
  by (simp add: dict_get_def)

lemma dict_get_absent: "map_of kvs k = None \<Longrightarrow> dict_get (PDict kvs) k dflt = Inr dflt"
  by (simp add: dict_get_def)

lemma detectar_anomalias_default:
  "dict_get config ''contamination'' (PFloat (1 / 10)) = Inr (PFloat (1 / 10)) \<Longrightarrow>
   detectar_anomalias forest df config = detectar_anomalias_fixo forest df"
  by (simp add: detectar_anomalias_def detectar_anomalias_fixo_def bindE_Inr)

lemma pipeline_default:
  "dict_get config ''contamination'' (PFloat (1 / 10)) = Inr (PFloat (1 / 10)) \<Longrightarrow>
   pipeline forest fmt config df = pipeline_fixo forest fmt df"
  by (simp add: pipeline_def pipeline_fixo_def detectar_anomalias_default)

lemma detectar_anomalias_InrD:
  assumes "detectar_anomalias forest df config = Inr df'"
  shows "\<exists>features c modelo scores labels.
           getitems df [''hora'', ''possivel_ataque''] = Inr features
         \<and> dict_get config ''contamination'' (PFloat (1 / 10)) = Inr c
         \<and> forest 100 c 42 features = Inr modelo
         \<and> decision_function modelo features = Inr scores
         \<and> predict modelo features = Inr labels
         \<and> length scores = nrows df \<and> length labels = nrows df
         \<and> df' = df\<lparr>cols := (cols df)(''anomaly_score'' \<mapsto> scores, ''anomaly'' \<mapsto> labels)\<rparr>"
proof -
  from assms obtain features c modelo scores df1 labels where
    f: "getitems df [''hora'', ''possivel_ataque''] = Inr features" and
    c: "dict_get config ''contamination'' (PFloat (1 / 10)) = Inr c" and
    m: "forest 100 c 42 features = Inr modelo" and
    s: "decision_function modelo features = Inr scores" and
    df1: "setitem df ''anomaly_score'' scores = Inr df1" and
    l: "predict modelo features = Inr labels" and
    df': "setitem df1 ''anomaly'' labels = Inr df'"
    unfolding detectar_anomalias_def bindE_Inr_iff by blast
  from df1 have l1: "length scores = nrows df"
    and e1: "df1 = df\<lparr>cols := (cols df)(''anomaly_score'' \<mapsto> scores)\<rparr>"
    by (simp_all add: setitem_Inr_iff)
  from df' e1 have l2: "length labels = nrows df"
    and e2: "df' = df\<lparr>cols := (cols df)(''anomaly_score'' \<mapsto> scores, ''anomaly'' \<mapsto> labels)\<rparr>"
    by (simp_all add: setitem_Inr_iff)
  from f c m s l l1 l2 e2 show ?thesis by blast
qed

text \<open>
  The detection step makes no check of its own on the size of the batch or on the value of
  the contamination: both go to the library as they are, and when the library raises, the
  step ends with the library's exception.
\<close>

lemma detectar_anomalias_library_error:
  assumes "getitems df [''hora'', ''possivel_ataque''] = Inr features"
    and "dict_get config ''contamination'' (PFloat (1 / 10)) = Inr c"
    and "forest 100 c 42 features = Inl e"
  shows "detectar_anomalias forest df config = Inl e"
  using assms by (simp add: detectar_anomalias_def bindE_def)

text \<open>
  What the reading of the configuration absorbs: when the file is missing, or its text is
  not JSON, or it parses to an object without the key \<^verbatim>\<open>contamination\<close>, the run proceeds as
  with the contamination fixed to 0.1.
\<close>

lemma ler_config_contexto_padrao:
  assumes "fs ''config_contexto.json'' = None
         \<or> (\<exists>s. fs ''config_contexto.json'' = Some (Texto s) \<and> json_load s = Inl JSONDecodeError)
         \<or> (\<exists>s kvs. fs ''config_contexto.json'' = Some (Texto s) \<and> json_load s = Inr (PDict kvs)
                     \<and> map_of kvs ''contamination'' = None)"
  shows "principal json_load fs forest fmt df = pipeline_fixo forest fmt df"
proof -
  from assms obtain config where
    c: "ler_config_contexto json_load fs ''config_contexto.json'' = Inr config" and
    d: "dict_get config ''contamination'' (PFloat (1 / 10)) = Inr (PFloat (1 / 10))"
    by (auto simp: ler_config_contexto_def dict_get_empty dict_get_absent)
  from c have "principal json_load fs forest fmt df = pipeline forest fmt config df"
    by (simp add: principal_def bindE_Inr)
  with d show ?thesis
    by (simp only: pipeline_default)
qed

lemma pipeline_config_nao_dict:
  assumes "extrai_features df = Inr df1" and "\<And>kvs. config \<noteq> PDict kvs"
  shows "pipeline forest fmt config df = Inl AttributeError"
proof -
  from extrai_features_InrD [OF assms(1)] obtain flags horas where
    "df1 = df\<lparr>cols := (cols df)(''possivel_ataque'' \<mapsto> flags, ''hora'' \<mapsto> horas)\<rparr>"
    by blast
  then obtain features where "getitems df1 [''hora'', ''possivel_ataque''] = Inr features"
    by (simp add: getitems_features)
  moreover have "dict_get config ''contamination'' (PFloat (1 / 10)) = Inl AttributeError"
    using assms(2) by (cases config) (auto simp: dict_get_def)
  ultimately have "detectar_anomalias forest df1 config = Inl AttributeError"
    by (simp add: detectar_anomalias_def bindE_def)
  with assms(1) show ?thesis
    by (simp add: pipeline_def bindE_def)
qed

text \<open>
  C8. The claim does not hold of the code. A configuration file that holds the JSON text
  \<^verbatim>\<open>[]\<close> is a configuration without the field \<^verbatim>\<open>contamination\<close>: \<^verbatim>\<open>ler_config_contexto\<close> returns
  the list it parses to (not a dictionary, as its docstring says), \<^verbatim>\<open>config.get\<close> raises
  \<^verbatim>\<open>AttributeError\<close>, and the run on the example ends with that exception instead of using
  0.1. A configuration file that is not UTF-8 ends the run with \<^verbatim>\<open>UnicodeDecodeError\<close>, which
  the \<^verbatim>\<open>except json.JSONDecodeError\<close> does not catch.
\<close>

theorem principal_config_lista_falha:
  assumes "json_load ''[]'' = Inr (PList [])"
  shows "ler_config_contexto json_load [''config_contexto.json'' \<mapsto> Texto ''[]''] ''config_contexto.json''
           = Inr (PList [])
       \<and> principal json_load [''config_contexto.json'' \<mapsto> Texto ''[]''] forest fmt eventos_exemplo
           = Inl AttributeError
       \<and> principal json_load [''config_contexto.json'' \<mapsto> Nao_utf8] forest fmt eventos_exemplo
           = Inl UnicodeDecodeError"
proof -
  have a: "ler_config_contexto json_load [''config_contexto.json'' \<mapsto> Texto ''[]''] ''config_contexto.json''
           = Inr (PList [])"
    using assms by (simp add: ler_config_contexto_def)
  have "pipeline forest fmt (PList []) eventos_exemplo = Inl AttributeError"
    by (rule pipeline_config_nao_dict [OF extrai_features_exemplo]) simp
  with a have b: "principal json_load [''config_contexto.json'' \<mapsto> Texto ''[]''] forest fmt eventos_exemplo
           = Inl AttributeError"
    by (simp only: principal_def bindE_Inr)
  have c: "principal json_load [''config_contexto.json'' \<mapsto> Nao_utf8] forest fmt eventos_exemplo
           = Inl UnicodeDecodeError"
    by (simp add: principal_def ler_config_contexto_def bindE_def)
  from a b c show ?thesis by (intro conjI)
qed

theorem principal_config_lista_falha_witness:
  "principal json_load_exemplo [''config_contexto.json'' \<mapsto> Texto ''[]'']
     floresta_exemplo fmt_exemplo eventos_exemplo = Inl AttributeError"
proof -
  have "json_load_exemplo ''[]'' = Inr (PList [])"
    by (simp add: json_load_exemplo_def)
  from principal_config_lista_falha
         [where json_load = json_load_exemplo and forest = floresta_exemplo and fmt = fmt_exemplo,
          OF this]
  show ?thesis by (elim conjE)
qed


subsection \<open>The pipeline on the example\<close>

lemma detectar_anomalias_fixo_exemplo:
  "detectar_anomalias_fixo floresta_exemplo
     (eventos_exemplo\<lparr>cols := (cols eventos_exemplo)
        (''possivel_ataque'' \<mapsto> [Num 1, Num 0], ''hora'' \<mapsto> [Num 3, Num 9])\<rparr>)
   = Inr (eventos_exemplo\<lparr>cols := (cols eventos_exemplo)
        (''possivel_ataque'' \<mapsto> [Num 1, Num 0], ''hora'' \<mapsto> [Num 3, Num 9],
         ''anomaly_score'' \<mapsto> [Flt (- 1 / 10), Flt (1 / 5)],
         ''anomaly'' \<mapsto> [Num (- 1), Num 1])\<rparr>)"
  by (simp add: detectar_anomalias_fixo_def getitems_def floresta_exemplo_def bindE_def
        setitem_def eventos_exemplo_def)

lemma df_apply_exemplo:
  "df_apply classifica_eventos
     (eventos_exemplo\<lparr>cols := (cols eventos_exemplo)
        (''possivel_ataque'' \<mapsto> [Num 1, Num 0], ''hora'' \<mapsto> [Num 3, Num 9],
         ''anomaly_score'' \<mapsto> [Flt (- 1 / 10), Flt (1 / 5)],
         ''anomaly'' \<mapsto> [Num (- 1), Num 1])\<rparr>)
   = Inr [Str Critico, Str Normal]"
  by (simp add: df_apply_def iterrows_def frame_row_def classifica_eventos_def py_and_def
        cmp_int_def row_getitem_def bindE_def eventos_exemplo_def numeral_2_eq_2)

lemma gerar_alertas_exemplo:
  "gerar_alertas fmt_exemplo eventos_classificados = Inr [alerta_exemplo]"
proof -
  from gerar_alertas_positions
         [OF wf_frame_eventos_classificados colunas_eventos_classificados, of fmt_exemplo]
  have "gerar_alertas fmt_exemplo eventos_classificados =
          Inr [alerta fmt_exemplo
                 (Time \<lparr>year = 2024, month = 5, day = 17, hour = 3, minute = 15, second = 42\<rparr>)
                 (Str ''10.0.0.7'') (Str ''ERROR'') (Str ''Acesso negado - Possivel ATAQUE detectado'')]"
    by (simp add: criticos_eventos_classificados)
  then show ?thesis
    by (simp only: alerta_evento_campos linha_exemplo)
qed

lemma pipeline_fixo_exemplo:
  "pipeline_fixo floresta_exemplo fmt_exemplo eventos_exemplo =
     Inr (eventos_classificados, [alerta_exemplo])"
proof -
  have "setitem (eventos_exemplo\<lparr>cols := (cols eventos_exemplo)
        (''possivel_ataque'' \<mapsto> [Num 1, Num 0], ''hora'' \<mapsto> [Num 3, Num 9],
         ''anomaly_score'' \<mapsto> [Flt (- 1 / 10), Flt (1 / 5)],
         ''anomaly'' \<mapsto> [Num (- 1), Num 1])\<rparr>) ''classificacao'' [Str Critico, Str Normal]
        = Inr eventos_classificados"
    by (simp add: setitem_def eventos_classificados_def eventos_exemplo_def)
  then show ?thesis
    by (simp only: pipeline_fixo_def extrai_features_exemplo detectar_anomalias_fixo_exemplo
          df_apply_exemplo gerar_alertas_exemplo bindE_Inr)
qed

lemma principal_sem_config_exemplo:
  "principal json_load (\<lambda>p. None) floresta_exemplo fmt_exemplo eventos_exemplo =
     Inr (eventos_classificados, [alerta_exemplo])"
proof -
  have "principal json_load (\<lambda>p. None) floresta_exemplo fmt_exemplo eventos_exemplo
          = pipeline_fixo floresta_exemplo fmt_exemplo eventos_exemplo"
    by (rule ler_config_contexto_padrao) simp
  then show ?thesis
    by (simp only: pipeline_fixo_exemplo)
qed

subsection \<open>The pipeline keeps the events aligned\<close>

lemma df_apply_InrD:
  assumes "df_apply f df = Inr cl"
  shows "length cl = nrows df"
    and "i < nrows df \<Longrightarrow> \<exists>k. f (frame_row df i) = Inr k \<and> cl ! i = Str k"
proof -
  from assms have t: "traverse (\<lambda>r. bindE (f r) (\<lambda>s. Inr (Str s))) (iterrows df) = Inr cl"
    by (simp only: df_apply_def)
  from traverse_length [OF t] show "length cl = nrows df"
    by (simp add: iterrows_def)
  assume i: "i < nrows df"
  then have "i < length (iterrows df)" and "iterrows df ! i = frame_row df i"
    by (simp_all add: iterrows_def)
  with traverse_nth [OF t, of i] have "bindE (f (frame_row df i)) (\<lambda>s. Inr (Str s)) = Inr (cl ! i)"
    by simp
  then show "\<exists>k. f (frame_row df i) = Inr k \<and> cl ! i = Str k"
    by (auto simp: bindE_Inr_iff)
qed

lemma pipeline_fixo_as_pipeline: "pipeline_fixo forest fmt df = pipeline forest fmt (PDict []) df"
  by (simp add: pipeline_default dict_get_empty)

lemma pipeline_InrD:
  assumes "pipeline forest fmt config df = Inr (out, alertas)"
  shows "\<exists>ms flags ts horas features c modelo scores labels cl.
           cols df ''mensagem'' = Some ms \<and> traverse possivel_ataque_of ms = Inr flags
         \<and> cols df ''timestamp'' = Some ts \<and> traverse hour_of ts = Inr horas
         \<and> length flags = nrows df \<and> length horas = nrows df
         \<and> length scores = nrows df \<and> length labels = nrows df \<and> length cl = nrows df
         \<and> nrows features = nrows df
         \<and> cols features ''hora'' = Some horas \<and> cols features ''possivel_ataque'' = Some flags
         \<and> forest 100 c 42 features = Inr modelo
         \<and> decision_function modelo features = Inr scores
         \<and> predict modelo features = Inr labels
         \<and> df_apply classifica_eventos
              (df\<lparr>cols := (cols df)(''possivel_ataque'' \<mapsto> flags, ''hora'' \<mapsto> horas,
                                     ''anomaly_score'' \<mapsto> scores, ''anomaly'' \<mapsto> labels)\<rparr>) = Inr cl
         \<and> out = df\<lparr>cols := (cols df)(''possivel_ataque'' \<mapsto> flags, ''hora'' \<mapsto> horas,
                                       ''anomaly_score'' \<mapsto> scores, ''anomaly'' \<mapsto> labels,
                                       ''classificacao'' \<mapsto> cl)\<rparr>"
proof -
  from assms obtain df1 df2 cl df3 where
    s1: "extrai_features df = Inr df1" and
    s2: "detectar_anomalias forest df1 config = Inr df2" and
    s3: "df_apply classifica_eventos df2 = Inr cl" and
    s4: "setitem df2 ''classificacao'' cl = Inr df3" and
    s5: "out = df3"
    unfolding pipeline_def bindE_Inr_iff by auto
  from extrai_features_InrD [OF s1] obtain ms flags ts horas where
    ms: "cols df ''mensagem'' = Some ms" "traverse possivel_ataque_of ms = Inr flags" and
    ts: "cols df ''timestamp'' = Some ts" "traverse hour_of ts = Inr horas" and
    l1: "length flags = nrows df" "length horas = nrows df" and
    e1: "df1 = df\<lparr>cols := (cols df)(''possivel_ataque'' \<mapsto> flags, ''hora'' \<mapsto> horas)\<rparr>"
    by blast
  from detectar_anomalias_InrD [OF s2] obtain features c modelo scores labels where
    f: "getitems df1 [''hora'', ''possivel_ataque''] = Inr features" and
    m: "forest 100 c 42 features = Inr modelo"
       "decision_function modelo features = Inr scores"
       "predict modelo features = Inr labels" and
    l2: "length scores = nrows df1" "length labels = nrows df1" and
    e2: "df2 = df1\<lparr>cols := (cols df1)(''anomaly_score'' \<mapsto> scores, ''anomaly'' \<mapsto> labels)\<rparr>"
    by blast
  from f e1 have ft: "nrows features = nrows df"
    "cols features ''hora'' = Some horas" "cols features ''possivel_ataque'' = Some flags"
    by (simp_all add: getitems_features)
  from e1 e2 have e2': "df2 = df\<lparr>cols := (cols df)(''possivel_ataque'' \<mapsto> flags, ''hora'' \<mapsto> horas,
                                     ''anomaly_score'' \<mapsto> scores, ''anomaly'' \<mapsto> labels)\<rparr>"
    by simp
  from l2 e1 have l2': "length scores = nrows df" "length labels = nrows df"
    by simp_all
  from s4 s5 e2' have l3: "length cl = nrows df"
    and e3: "out = df\<lparr>cols := (cols df)(''possivel_ataque'' \<mapsto> flags, ''hora'' \<mapsto> horas,
                                       ''anomaly_score'' \<mapsto> scores, ''anomaly'' \<mapsto> labels,
                                       ''classificacao'' \<mapsto> cl)\<rparr>"
    by (simp_all add: setitem_Inr_iff)
  from s3 e2' have s3': "df_apply classifica_eventos
              (df\<lparr>cols := (cols df)(''possivel_ataque'' \<mapsto> flags, ''hora'' \<mapsto> horas,
                                     ''anomaly_score'' \<mapsto> scores, ''anomaly'' \<mapsto> labels)\<rparr>) = Inr cl"
    by simp
  from ms ts l1 l2' l3 ft m s3' e3 show ?thesis
    by blast
qed


text \<open>
  C4. Whenever the pipeline (of either script) returns for a well-formed frame of events,
  the classified frame has the same number of rows and every column of it has that many
  entries, so no event is dropped; and at every position \<open>i\<close> the row of the result derives
  from the event at position \<open>i\<close>: the event's own fields are carried over untouched, the flag
  is computed from its message and the hour from its timestamp, the score and the label are
  the entries at position \<open>i\<close> of what the fitted model returned for the features frame, whose
  row \<open>i\<close> holds that hour and that flag, and the severity is the classification of that row.
\<close>

theorem pipeline_index_aligned:
  assumes "wf_frame df"
    and "pipeline forest fmt config df = Inr (out, alertas)
         \<or> pipeline_fixo forest fmt df = Inr (out, alertas)"
    and "i < nrows df"
  shows "nrows out = nrows df \<and> wf_frame out
       \<and> (\<forall>c. c \<notin> {''possivel_ataque'', ''hora'', ''anomaly_score'', ''anomaly'', ''classificacao''}
              \<longrightarrow> frame_row out i c = frame_row df i c)
       \<and> (\<exists>m t pa h k.
              frame_row df i ''mensagem'' = Some m \<and> frame_row df i ''timestamp'' = Some t
            \<and> possivel_ataque_of m = Inr pa \<and> frame_row out i ''possivel_ataque'' = Some pa
            \<and> hour_of t = Inr h \<and> frame_row out i ''hora'' = Some h
            \<and> classifica_eventos (frame_row out i) = Inr k
            \<and> frame_row out i ''classificacao'' = Some (Str k))
       \<and> (\<exists>features c modelo scores labels.
              forest 100 c 42 features = Inr modelo
            \<and> decision_function modelo features = Inr scores
            \<and> predict modelo features = Inr labels
            \<and> nrows features = nrows df
            \<and> frame_row features i ''hora'' = frame_row out i ''hora''
            \<and> frame_row features i ''possivel_ataque'' = frame_row out i ''possivel_ataque''
            \<and> frame_row out i ''anomaly_score'' = Some (scores ! i)
            \<and> frame_row out i ''anomaly'' = Some (labels ! i))"
proof -
  from assms(2) obtain cfg where "pipeline forest fmt cfg df = Inr (out, alertas)"
    by (auto simp: pipeline_fixo_as_pipeline)
  from pipeline_InrD [OF this] obtain ms flags ts horas features c modelo scores labels cl where
    ms: "cols df ''mensagem'' = Some ms" and fl: "traverse possivel_ataque_of ms = Inr flags" and
    ts: "cols df ''timestamp'' = Some ts" and ho: "traverse hour_of ts = Inr horas" and
    len: "length flags = nrows df" "length horas = nrows df" "length scores = nrows df"
         "length labels = nrows df" "length cl = nrows df" and
    ft: "nrows features = nrows df" "cols features ''hora'' = Some horas"
        "cols features ''possivel_ataque'' = Some flags" and
    mo: "forest 100 c 42 features = Inr modelo" "decision_function modelo features = Inr scores"
        "predict modelo features = Inr labels" and
    ap: "df_apply classifica_eventos
              (df\<lparr>cols := (cols df)(''possivel_ataque'' \<mapsto> flags, ''hora'' \<mapsto> horas,
                                     ''anomaly_score'' \<mapsto> scores, ''anomaly'' \<mapsto> labels)\<rparr>) = Inr cl" and
    out: "out = df\<lparr>cols := (cols df)(''possivel_ataque'' \<mapsto> flags, ''hora'' \<mapsto> horas,
                                       ''anomaly_score'' \<mapsto> scores, ''anomaly'' \<mapsto> labels,
                                       ''classificacao'' \<mapsto> cl)\<rparr>"
    by blast
  let ?df2 = "df\<lparr>cols := (cols df)(''possivel_ataque'' \<mapsto> flags, ''hora'' \<mapsto> horas,
                                     ''anomaly_score'' \<mapsto> scores, ''anomaly'' \<mapsto> labels)\<rparr>"
  note i = assms(3)
  have lms: "length ms = nrows df" and lts: "length ts = nrows df"
    using assms(1) ms ts by (simp_all add: wf_frame_def)
  have n: "nrows out = nrows df"
    by (simp add: out)
  have wf: "wf_frame out"
    using assms(1) len by (auto simp: wf_frame_def out split: if_splits)
  have kept: "\<forall>c. c \<notin> {''possivel_ataque'', ''hora'', ''anomaly_score'', ''anomaly'', ''classificacao''}
              \<longrightarrow> frame_row out i c = frame_row df i c"
    by (simp add: frame_row_def out)
  have r_pa: "frame_row out i ''possivel_ataque'' = Some (flags ! i)"
    and r_ho: "frame_row out i ''hora'' = Some (horas ! i)"
    and r_sc: "frame_row out i ''anomaly_score'' = Some (scores ! i)"
    and r_lb: "frame_row out i ''anomaly'' = Some (labels ! i)"
    and r_cl: "frame_row out i ''classificacao'' = Some (cl ! i)"
    using i len by (simp_all add: frame_row_def out)
  have r_ms: "frame_row df i ''mensagem'' = Some (ms ! i)"
    and r_ts: "frame_row df i ''timestamp'' = Some (ts ! i)"
    using i ms ts lms lts by (simp_all add: frame_row_def)
  have f_pa: "possivel_ataque_of (ms ! i) = Inr (flags ! i)"
    using fl i lms by (simp add: traverse_nth)
  have f_ho: "hour_of (ts ! i) = Inr (horas ! i)"
    using ho i lts by (simp add: traverse_nth)
  from df_apply_InrD(2) [OF ap, of i] i obtain k where
    k: "classifica_eventos (frame_row ?df2 i) = Inr k" and ck: "cl ! i = Str k"
    by auto
  have "frame_row out i ''anomaly'' = frame_row ?df2 i ''anomaly''"
    and "frame_row out i ''possivel_ataque'' = frame_row ?df2 i ''possivel_ataque''"
    by (simp_all add: frame_row_def out)
  then have "classifica_eventos (frame_row out i) = classifica_eventos (frame_row ?df2 i)"
    by (rule classifica_eventos_cong)
  with k have c_k: "classifica_eventos (frame_row out i) = Inr k"
    by simp
  have derived: "\<exists>m t pa h k.
              frame_row df i ''mensagem'' = Some m \<and> frame_row df i ''timestamp'' = Some t
            \<and> possivel_ataque_of m = Inr pa \<and> frame_row out i ''possivel_ataque'' = Some pa
            \<and> hour_of t = Inr h \<and> frame_row out i ''hora'' = Some h
            \<and> classifica_eventos (frame_row out i) = Inr k
            \<and> frame_row out i ''classificacao'' = Some (Str k)"
    using r_ms r_ts f_pa r_pa f_ho r_ho c_k r_cl ck by auto
  have f_rows: "frame_row features i ''hora'' = frame_row out i ''hora''"
    "frame_row features i ''possivel_ataque'' = frame_row out i ''possivel_ataque''"
    using ft i len r_pa r_ho by (simp_all add: frame_row_def)
  have model: "\<exists>features c modelo scores labels.
              forest 100 c 42 features = Inr modelo
            \<and> decision_function modelo features = Inr scores
            \<and> predict modelo features = Inr labels
            \<and> nrows features = nrows df
            \<and> frame_row features i ''hora'' = frame_row out i ''hora''
            \<and> frame_row features i ''possivel_ataque'' = frame_row out i ''possivel_ataque''
            \<and> frame_row out i ''anomaly_score'' = Some (scores ! i)
            \<and> frame_row out i ''anomaly'' = Some (labels ! i)"
    using mo ft(1) f_rows r_sc r_lb by blast
  show ?thesis
    by (intro conjI) (rule n, rule wf, rule kept, rule derived, rule model)
qed

theorem pipeline_index_aligned_witness:
  "nrows eventos_classificados = nrows eventos_exemplo
   \<and> wf_frame eventos_classificados
   \<and> frame_row eventos_classificados 1 ''mensagem'' = frame_row eventos_exemplo 1 ''mensagem''"
proof -
  let ?alertas = "[alerta_exemplo]"
  have wf: "wf_frame eventos_exemplo"
    by (simp add: wf_frame_def eventos_exemplo_def)
  have i: "1 < nrows eventos_exemplo"
    by (simp add: eventos_exemplo_def)
  have run: "pipeline floresta_exemplo fmt_exemplo (PDict []) eventos_exemplo
               = Inr (eventos_classificados, ?alertas)
             \<or> pipeline_fixo floresta_exemplo fmt_exemplo eventos_exemplo
               = Inr (eventos_classificados, ?alertas)"
    by (rule disjI2) (rule pipeline_fixo_exemplo)
  note t = pipeline_index_aligned [OF wf run i]
  have a: "nrows eventos_classificados = nrows eventos_exemplo"
    using t by (rule conjunct1)
  have b: "wf_frame eventos_classificados"
    using t [THEN conjunct2] by (rule conjunct1)
  have "\<forall>c. c \<notin> {''possivel_ataque'', ''hora'', ''anomaly_score'', ''anomaly'', ''classificacao''}
              \<longrightarrow> frame_row eventos_classificados 1 c = frame_row eventos_exemplo 1 c"
    using t [THEN conjunct2, THEN conjunct2] by (rule conjunct1)
  then have c: "frame_row eventos_classificados 1 ''mensagem'' = frame_row eventos_exemplo 1 ''mensagem''"
    by simp
  from a b c show ?thesis by (intro conjI)
qed


end
